theory Spec2Isabelle
  imports Main "HOL-Library.Word" "HOL-Library.AList" "HOL-Library.Sublist" "HOL-Library.Multiset"
begin

unbundle bit_operations_syntax


section \<open>Python values shared by all components\<close>

text \<open>
  Modelled from the spec: the keys of a sample.  \<^verbatim>\<open>DataKeys\<close>
  (flash.core.data.io.input) is not part of the sources; the spec describes a
  sample as a mapping with reserved keys for input payload, target label,
  metadata and predictions.  \<open>Name s\<close> is any other key, a plain string such
  as \<^verbatim>\<open>"scales"\<close> or \<^verbatim>\<open>"size"\<close>.
\<close>

datatype key = INPUT | PREDS | TARGET | METADATA | Name string

text \<open>
  Exceptions are values.  Every \<^verbatim>\<open>raise\<close> of the modelled code, and every
  exception that a call into a library outside the repository may raise, is a
  constructor of \<open>pyerr\<close>; a fallible function returns \<open>pyerr + 'a\<close> with
  \<open>Inl\<close> for the exception.  A library call (PIL, numpy, torchvision,
  fastface, the file system) may raise any of them, also one that the
  repository raises itself; \<open>OSError\<close> is what the file system raises.
\<close>

datatype pyerr =
    ValueError string
  | KeyError key
  | IndexError
  | TypeError
  | AttributeError
  | RuntimeError string
  | UnicodeEncodeError
  | BinasciiError string
  | NotSupported string
  | OSError string

text \<open>
  Python's \<^verbatim>\<open>x or y\<close> for an optional argument \<open>x\<close>: the value of \<open>x\<close> when
  \<open>x\<close> is truthy, otherwise \<open>y\<close>.  \<^verbatim>\<open>None\<close> is falsy; the truthiness of any
  other object is given by \<open>truthy\<close>.
\<close>

definition py_or :: "('a \<Rightarrow> bool) \<Rightarrow> 'a option \<Rightarrow> 'a \<Rightarrow> 'a" where
  "py_or truthy x y = (case x of None \<Rightarrow> y | Some v \<Rightarrow> if truthy v then v else y)"


section \<open>Python dictionaries\<close>

text \<open>
  A \<^verbatim>\<open>dict\<close> is an association list in insertion order, read with
  \<open>map_of\<close>.  \<^verbatim>\<open>d[k]\<close> raises \<^verbatim>\<open>KeyError\<close> on a missing key;
  \<^verbatim>\<open>d[k] = v\<close> is \<open>AList.update k v d\<close>, which replaces the value of an
  existing key in place and appends a new key at the end, as Python does.
\<close>

definition getitem :: "(key \<times> 'v) list \<Rightarrow> key \<Rightarrow> pyerr + 'v" where
  "getitem d k = (case map_of d k of None \<Rightarrow> Inl (KeyError k) | Some v \<Rightarrow> Inr v)"


section \<open>flash/image/data.py: \<^verbatim>\<open>ImageDeserializer.deserialize\<close>\<close>

text \<open>
  A byte is an 8-bit word.  \<^verbatim>\<open>str.encode("ascii")\<close> gives one byte per
  character and raises \<^verbatim>\<open>UnicodeEncodeError\<close> for a character above 127.
\<close>

type_synonym byte = "8 word"

definition encode_ascii :: "string \<Rightarrow> pyerr + byte list" where
  "encode_ascii s =
     (if list_all (\<lambda>c. (of_char c :: nat) < 128) s
      then Inr (map (\<lambda>c. word_of_nat (of_char c)) s)
      else Inl UnicodeEncodeError)"

text \<open>
  The standard library's \<^verbatim>\<open>base64.b64decode(s)\<close> hands the bytes, without
  alternative characters and without validation, to
  \<^verbatim>\<open>binascii.a2b_base64\<close>, which is the loop of CPython's
  \<^verbatim>\<open>Modules/binascii.c\<close> (version 3.11 and later, not in strict mode) below.
  \<open>table_b2a_base64\<close> is the alphabet; \<open>table_a2b_base64\<close> maps a byte of
  the alphabet to its position and every other byte to 255 (the table's
  \<^verbatim>\<open>-1\<close> read as an unsigned byte).
\<close>

definition table_b2a_base64 :: "byte list" where
  "table_b2a_base64 =
     map (\<lambda>c. word_of_nat (of_char c))
       ''ABCDEFGHIJKLMNOPQRSTUVWXYZabcdefghijklmnopqrstuvwxyz0123456789+/''"

definition BASE64_PAD :: byte where
  "BASE64_PAD = word_of_nat (of_char CHR ''='')"

definition table_a2b_base64 :: "byte \<Rightarrow> byte" where
  "table_a2b_base64 c =
     (case map_of (zip table_b2a_base64 [0..<64]) c of
        Some n \<Rightarrow> word_of_nat n
      | None \<Rightarrow> 255)"

text \<open>Python's \<^verbatim>\<open>str\<close> of a natural number, for the text of an exception.\<close>

fun py_str_nat :: "nat \<Rightarrow> string" where
  "py_str_nat n =
     (if n < 10 then [char_of (48 + n)]
      else py_str_nat (n div 10) @ [char_of (48 + n mod 10)])"

declare py_str_nat.simps [simp del]

text \<open>
  The loop over the input with its state: \<open>quad_pos\<close>, the position in the
  current group of four characters, \<open>leftchar\<close>, the bits of the group not yet
  written, \<open>pads\<close>, the padding characters seen since the last character of
  the alphabet, and the bytes written so far.  A padding character ends the
  decoding when it completes a group that has at least two characters, and is
  skipped otherwise; a byte outside the alphabet is skipped.  At the end of
  the input an incomplete group is an error.
\<close>

fun a2b_base64_loop :: "nat \<Rightarrow> byte \<Rightarrow> nat \<Rightarrow> byte list \<Rightarrow> byte list \<Rightarrow> pyerr + byte list" where
  "a2b_base64_loop quad_pos leftchar pads [] bin_data =
     (if quad_pos \<noteq> 0 then
        (if quad_pos = 1 then
           Inl (BinasciiError
                  (''Invalid base64-encoded string: number of data characters (''
                   @ py_str_nat (length bin_data div 3 * 4 + 1)
                   @ '') cannot be 1 more than a multiple of 4''))
         else Inl (BinasciiError ''Incorrect padding''))
      else Inr bin_data)"
| "a2b_base64_loop quad_pos leftchar pads (this_ch # ascii_data) bin_data =
     (if this_ch = BASE64_PAD then
        (if quad_pos \<ge> 2 then
           (if quad_pos + (pads + 1) \<ge> 4 then Inr bin_data
            else a2b_base64_loop quad_pos leftchar (pads + 1) ascii_data bin_data)
         else a2b_base64_loop quad_pos leftchar pads ascii_data bin_data)
      else
        (let this_ch = table_a2b_base64 this_ch in
         if this_ch \<ge> 64 then a2b_base64_loop quad_pos leftchar pads ascii_data bin_data
         else if quad_pos = 0 then
           a2b_base64_loop 1 this_ch 0 ascii_data bin_data
         else if quad_pos = 1 then
           a2b_base64_loop 2 (this_ch AND 0x0f) 0 ascii_data
             (bin_data @ [push_bit 2 leftchar OR drop_bit 4 this_ch])
         else if quad_pos = 2 then
           a2b_base64_loop 3 (this_ch AND 0x03) 0 ascii_data
             (bin_data @ [push_bit 4 leftchar OR drop_bit 2 this_ch])
         else
           a2b_base64_loop 0 0 0 ascii_data
             (bin_data @ [push_bit 6 leftchar OR this_ch])))"

definition a2b_base64 :: "byte list \<Rightarrow> pyerr + byte list" where
  "a2b_base64 ascii_data = a2b_base64_loop 0 0 0 ascii_data []"

definition b64decode :: "byte list \<Rightarrow> pyerr + byte list" where
  "b64decode s = a2b_base64 s"

text \<open>
  \<^verbatim>\<open>deserialize(self, data)\<close>.  The decorator \<^verbatim>\<open>@requires("image")\<close>
  (flash.core.utilities.imports) is not in the sources: it is a parameter, a
  function from the method body to the method that is called.
  \<open>Image_open\<close> is PIL's \<^verbatim>\<open>Image.open(BytesIO(_), mode="r")\<close> on the decoded
  bytes; it returns the image or raises.
\<close>

definition ImageDeserializer_deserialize ::
  "((string \<Rightarrow> pyerr + (key \<times> 'img) list) \<Rightarrow> string \<Rightarrow> pyerr + (key \<times> 'img) list) \<Rightarrow>
   (byte list \<Rightarrow> pyerr + 'img) \<Rightarrow> string \<Rightarrow> pyerr + (key \<times> 'img) list" where
  "ImageDeserializer_deserialize requires_image Image_open =
     requires_image (\<lambda>data.
       case encode_ascii (data @ ''==='') of
         Inl e \<Rightarrow> Inl e
       | Inr encoded_with_padding \<Rightarrow>
           (case b64decode encoded_with_padding of
              Inl e \<Rightarrow> Inl e
            | Inr img \<Rightarrow>
                (case Image_open img of
                   Inl e \<Rightarrow> Inl e
                 | Inr img' \<Rightarrow> Inr [(INPUT, img')])))"

text \<open>
  The Base64 encoding of a byte string, as \<^verbatim>\<open>base64.b64encode\<close> produces it
  (RFC 4648): three bytes give four characters of the alphabet, six bits
  each; a last group of one or two bytes gives two or three characters and is
  filled up to four with the padding character.  \<open>b64encode_str\<close> is the
  encoding as a string, the \<^verbatim>\<open>base64.b64encode(_).decode("UTF-8")\<close> of
  \<^verbatim>\<open>example_input\<close>.
\<close>

definition b2a :: "byte \<Rightarrow> byte" where
  "b2a this_ch = table_b2a_base64 ! unat this_ch"

fun b64encode :: "byte list \<Rightarrow> byte list" where
  "b64encode [] = []"
| "b64encode [a] =
     [b2a (drop_bit 2 a), b2a (push_bit 4 (a AND 0x03)), BASE64_PAD, BASE64_PAD]"
| "b64encode [a, b] =
     [b2a (drop_bit 2 a), b2a (push_bit 4 (a AND 0x03) OR drop_bit 4 b),
      b2a (push_bit 2 (b AND 0x0f)), BASE64_PAD]"
| "b64encode (a # b # c # rest) =
     [b2a (drop_bit 2 a), b2a (push_bit 4 (a AND 0x03) OR drop_bit 4 b),
      b2a (push_bit 2 (b AND 0x0f) OR drop_bit 6 c), b2a (c AND 0x3f)] @ b64encode rest"

definition b64encode_str :: "byte list \<Rightarrow> string" where
  "b64encode_str b = map (\<lambda>w. char_of (unat w)) (b64encode b)"


section \<open>flash/image/data.py: \<^verbatim>\<open>_labels_to_indices\<close>\<close>

text \<open>
  The label of one sample, as the loop body computes it:
  \<^verbatim>\<open>label = sample[DataKeys.TARGET]\<close>, then \<^verbatim>\<open>label = label.item()\<close> when
  \<^verbatim>\<open>torch.is_tensor(label)\<close>.  \<open>is_tensor\<close> and \<open>item\<close> belong to torch and are
  parameters (\<open>item\<close> raises on a tensor that does not hold exactly one
  element).  The label then indexes a dictionary, which raises
  \<^verbatim>\<open>TypeError\<close> for an unhashable object; \<open>hashable\<close> is Python's own test.
  Equality of labels in HOL stands for equality of dictionary keys in Python.
\<close>

definition sample_label ::
  "('v \<Rightarrow> bool) \<Rightarrow> ('v \<Rightarrow> bool) \<Rightarrow> ('v \<Rightarrow> pyerr + 'v) \<Rightarrow> (key \<times> 'v) list \<Rightarrow> pyerr + 'v" where
  "sample_label hashable is_tensor item sample =
     (case getitem sample TARGET of
        Inl e \<Rightarrow> Inl e
      | Inr label \<Rightarrow>
          (case (if is_tensor label then item label else Inr label) of
             Inl e \<Rightarrow> Inl e
           | Inr label' \<Rightarrow> if hashable label' then Inr label' else Inl TypeError))"

text \<open>
  \<^verbatim>\<open>out[label].append(idx)\<close> on a \<^verbatim>\<open>defaultdict(list)\<close>: a missing label is
  first entered with the empty list.
\<close>

definition defaultdict_append :: "('l \<times> nat list) list \<Rightarrow> 'l \<Rightarrow> nat \<Rightarrow> ('l \<times> nat list) list" where
  "defaultdict_append out l idx =
     AList.update l ((case map_of out l of None \<Rightarrow> [] | Some idxs \<Rightarrow> idxs) @ [idx]) out"

text \<open>
  The loop \<^verbatim>\<open>for idx, sample in enumerate(data)\<close>, with the running index and
  the dictionary built so far; an exception in the body ends the function.
\<close>

fun labels_to_indices_loop ::
  "('v \<Rightarrow> bool) \<Rightarrow> ('v \<Rightarrow> bool) \<Rightarrow> ('v \<Rightarrow> pyerr + 'v) \<Rightarrow>
   nat \<Rightarrow> (key \<times> 'v) list list \<Rightarrow> ('v \<times> nat list) list \<Rightarrow> pyerr + ('v \<times> nat list) list" where
  "labels_to_indices_loop hashable is_tensor item idx [] out = Inr out"
| "labels_to_indices_loop hashable is_tensor item idx (sample # rest) out =
     (case sample_label hashable is_tensor item sample of
        Inl e \<Rightarrow> Inl e
      | Inr label \<Rightarrow>
          labels_to_indices_loop hashable is_tensor item (Suc idx) rest
            (defaultdict_append out label idx))"

definition labels_to_indices ::
  "('v \<Rightarrow> bool) \<Rightarrow> ('v \<Rightarrow> bool) \<Rightarrow> ('v \<Rightarrow> pyerr + 'v) \<Rightarrow>
   (key \<times> 'v) list list \<Rightarrow> pyerr + ('v \<times> nat list) list" where
  "labels_to_indices hashable is_tensor item data =
     labels_to_indices_loop hashable is_tensor item 0 data []"

text \<open>
  Auxiliary, for stating the loop invariant: the positions \<open>idx, idx + 1, \<dots>\<close>
  at which the label list \<open>ls\<close> holds \<open>l\<close>, in increasing order.
\<close>

definition positions :: "'l \<Rightarrow> nat \<Rightarrow> 'l list \<Rightarrow> nat list" where
  "positions l idx ls = map fst (filter (\<lambda>p. snd p = l) (zip [idx..<idx + length ls] ls))"


section \<open>Samples and their values\<close>

text \<open>
  A PIL image, as far as the code looks at it: \<^verbatim>\<open>img.size\<close> is the pair
  \<^verbatim>\<open>(width, height)\<close>; the decoded content is opaque.
\<close>

record 'o image =
  width :: int
  height :: int
  pixels :: 'o

definition pil_size :: "'o image \<Rightarrow> int \<times> int" where
  "pil_size img = (width img, height img)"

text \<open>
  The Python values that occur in samples and batches.  \<open>Seq\<close> is a list or a
  tuple, \<open>Dict\<close> a dictionary, \<open>Img\<close> an image object (an object whose
  \<^verbatim>\<open>size\<close> attribute is a pair), \<open>TensorRef\<close> a tensor that is updated in place
  and therefore held by reference (its content lives in a heap of tensors),
  \<open>Num\<close> a number of the element type of such tensors, and \<open>Obj\<close> any other
  object, opaque to the code (a file handle, an array that is only handed on).
\<close>

datatype ('a, 'o) pyval =
    PyInt int
  | Num 'a
  | Str string
  | Seq "('a, 'o) pyval list"
  | Dict "(key \<times> ('a, 'o) pyval) list"
  | Img "'o image"
  | TensorRef nat
  | Obj 'o

text \<open>
  \<^verbatim>\<open>w, h = x.size\<close>: only an image object has a \<^verbatim>\<open>size\<close> that unpacks into two
  values; for every other value the attribute access or the unpacking raises.
\<close>

fun size_of :: "('a, 'o) pyval \<Rightarrow> pyerr + int \<times> int" where
  "size_of (Img img) = Inr (pil_size img)"
| "size_of _ = Inl AttributeError"

text \<open>
  \<^verbatim>\<open>load_sample\<close> receives a sample dictionary and assigns to its keys, so the
  caller sees the changes: samples are held by reference.  A store maps the
  address of each sample dictionary to its content; \<^verbatim>\<open>load_sample\<close> takes the
  store and the address of its argument and returns the address of the
  dictionary it returns (or the exception it raises) with the updated store.
\<close>

type_synonym ('a, 'o) store = "nat \<Rightarrow> (key \<times> ('a, 'o) pyval) list"

type_synonym ('a, 'o) load_sample = "('a, 'o) store \<Rightarrow> nat \<Rightarrow> (pyerr + nat) \<times> ('a, 'o) store"

definition setitem :: "('a, 'o) store \<Rightarrow> nat \<Rightarrow> key \<Rightarrow> ('a, 'o) pyval \<Rightarrow> ('a, 'o) store" where
  "setitem st sample k v = st(sample := AList.update k v (st sample))"


section \<open>flash/image/data.py: the \<^verbatim>\<open>load_sample\<close> methods\<close>

text \<open>
  \<^verbatim>\<open>ImagePathsInput.load_sample\<close>.  Two pieces of the repository are not in the
  sources and are parameters: the decorator \<^verbatim>\<open>@requires("image")\<close>
  (flash.core.utilities.imports), a function from the method body to the
  method that is called, and \<^verbatim>\<open>PathsInput.load_sample\<close>
  (flash.core.data.io.input), the \<^verbatim>\<open>super()\<close> call.  The \<^verbatim>\<open>dataset\<close> argument is
  only handed to the \<^verbatim>\<open>super()\<close> call and is part of that parameter.
  \<^verbatim>\<open>sample[DataKeys.METADATA]["size"] = (h, w)\<close> reads the metadata entry,
  which must be a dictionary, and assigns to its key \<^verbatim>\<open>"size"\<close>.
\<close>

definition ImagePathsInput_load_sample ::
  "(('a, 'o) load_sample \<Rightarrow> ('a, 'o) load_sample) \<Rightarrow> ('a, 'o) load_sample \<Rightarrow> ('a, 'o) load_sample" where
  "ImagePathsInput_load_sample requires_image PathsInput_load_sample =
     requires_image (\<lambda>st sample.
       case PathsInput_load_sample st sample of
         (Inl e, st1) \<Rightarrow> (Inl e, st1)
       | (Inr sample1, st1) \<Rightarrow>
           (case getitem (st1 sample1) INPUT of
              Inl e \<Rightarrow> (Inl e, st1)
            | Inr x \<Rightarrow>
                (case size_of x of
                   Inl e \<Rightarrow> (Inl e, st1)
                 | Inr (w, h) \<Rightarrow>
                     (case getitem (st1 sample1) METADATA of
                        Inl e \<Rightarrow> (Inl e, st1)
                      | Inr (Dict md) \<Rightarrow>
                          (Inr sample1,
                           setitem st1 sample1 METADATA
                             (Dict (AList.update (Name ''size'') (Seq [PyInt h, PyInt w]) md)))
                      | Inr _ \<Rightarrow> (Inl TypeError, st1)))))"

text \<open>
  \<^verbatim>\<open>ImageTensorInput.load_sample\<close>; \<open>to_pil_image\<close> is torchvision's.  An
  exception leaves the store as it is at that point.
\<close>

definition ImageTensorInput_load_sample ::
  "(('a, 'o) pyval \<Rightarrow> pyerr + 'o image) \<Rightarrow> ('a, 'o) load_sample" where
  "ImageTensorInput_load_sample to_pil_image st sample =
     (case getitem (st sample) INPUT of
        Inl e \<Rightarrow> (Inl e, st)
      | Inr x \<Rightarrow>
          (case to_pil_image x of
             Inl e \<Rightarrow> (Inl e, st)
           | Inr img \<Rightarrow>
               (let st1 = setitem st sample INPUT (Img img) in
                case pil_size img of
                  (w, h) \<Rightarrow>
                    (Inr sample,
                     setitem st1 sample METADATA (Dict [(Name ''size'', Seq [PyInt h, PyInt w])])))))"

text \<open>
  \<^verbatim>\<open>ImageNumpyInput.load_sample\<close>; \<open>from_numpy\<close> is \<^verbatim>\<open>torch.from_numpy\<close>.
\<close>

definition ImageNumpyInput_load_sample ::
  "(('a, 'o) pyval \<Rightarrow> pyerr + ('a, 'o) pyval) \<Rightarrow> (('a, 'o) pyval \<Rightarrow> pyerr + 'o image) \<Rightarrow>
   ('a, 'o) load_sample" where
  "ImageNumpyInput_load_sample from_numpy to_pil_image st sample =
     (case getitem (st sample) INPUT of
        Inl e \<Rightarrow> (Inl e, st)
      | Inr x \<Rightarrow>
          (case from_numpy x of
             Inl e \<Rightarrow> (Inl e, st)
           | Inr t \<Rightarrow>
               (case to_pil_image t of
                  Inl e \<Rightarrow> (Inl e, st)
                | Inr img \<Rightarrow>
                    (let st1 = setitem st sample INPUT (Img img) in
                     case pil_size img of
                       (w, h) \<Rightarrow>
                         (Inr sample,
                          setitem st1 sample METADATA (Dict [(Name ''size'', Seq [PyInt h, PyInt w])]))))))"

text \<open>
  \<^verbatim>\<open>ImageFiftyOneInput.load_sample\<close>; \<open>image_default_loader\<close>
  (flash.core.data.utils) opens the file at the path and is a parameter.
\<close>

definition ImageFiftyOneInput_load_sample ::
  "(('a, 'o) pyval \<Rightarrow> pyerr + 'o image) \<Rightarrow> ('a, 'o) load_sample" where
  "ImageFiftyOneInput_load_sample image_default_loader st sample =
     (case getitem (st sample) INPUT of
        Inl e \<Rightarrow> (Inl e, st)
      | Inr img_path \<Rightarrow>
          (case image_default_loader img_path of
             Inl e \<Rightarrow> (Inl e, st)
           | Inr img \<Rightarrow>
               (let st1 = setitem st sample INPUT (Img img) in
                case pil_size img of
                  (w, h) \<Rightarrow>
                    (Inr sample,
                     setitem st1 sample METADATA
                       (Dict [(Name ''filepath'', img_path), (Name ''size'', Seq [PyInt h, PyInt w])])))))"


section \<open>flash/image/face_detection/data.py: \<^verbatim>\<open>FastFaceInput.load_sample\<close>\<close>

definition FastFaceInput_load_sample ::
  "(('a, 'o) pyval \<Rightarrow> pyerr + 'o image) \<Rightarrow> ('a, 'o) load_sample" where
  "FastFaceInput_load_sample image_default_loader st sample =
     (case getitem (st sample) INPUT of
        Inl e \<Rightarrow> (Inl e, st)
      | Inr filepath \<Rightarrow>
          (case image_default_loader filepath of
             Inl e \<Rightarrow> (Inl e, st)
           | Inr img \<Rightarrow>
               (let st1 = setitem st sample INPUT (Img img) in
                case pil_size img of
                  (w, h) \<Rightarrow>
                    (Inr sample,
                     setitem st1 sample METADATA
                       (Dict [(Name ''filepath'', filepath), (Name ''size'', Seq [PyInt h, PyInt w])])))))"


section \<open>Properties of loaded samples\<close>



text \<open>
  The frame of a call \<open>res = load_sample st sample\<close>: no other dictionary of
  the store changes, every key of the sample other than the input key and
  the metadata key is bound as before (or still absent), and the dictionary
  returned is the one that was passed.
\<close>

abbreviation only_input_and_metadata ::
  "('a, 'o) store \<Rightarrow> nat \<Rightarrow> (pyerr + nat) \<times> ('a, 'o) store \<Rightarrow> bool" where
  "only_input_and_metadata st sample res \<equiv>
     ((\<forall>other. other \<noteq> sample \<longrightarrow> snd res other = st other)
      \<and> (\<forall>k. k \<noteq> INPUT \<longrightarrow> k \<noteq> METADATA \<longrightarrow>
             map_of (snd res sample) k = map_of (st sample) k)
      \<and> (\<forall>r. fst res = Inr r \<longrightarrow> r = sample))"


section \<open>flash/image/face_detection/data.py: \<^verbatim>\<open>fastface_collate_fn\<close>\<close>

text \<open>
  A tensor of boxes has one row per box and \<open>ncols\<close> columns.  The collate
  function updates such tensors in place (\<^verbatim>\<open>*=\<close>, \<^verbatim>\<open>+=\<close>), so a sample holds
  its boxes by reference (\<open>TensorRef\<close>) and the content is in a heap from
  addresses to tensors: two samples may hold the same tensor.  The element
  type is any type with a multiplication and an addition; no law of
  arithmetic is used.
\<close>

record 'a tensor =
  ncols :: nat
  rows :: "'a list list"

type_synonym 'a heap = "nat \<Rightarrow> 'a tensor"

text \<open>\<^verbatim>\<open>t *= scale\<close>: every element is multiplied by the scale.\<close>

definition imul :: "'a::times tensor \<Rightarrow> 'a \<Rightarrow> 'a tensor" where
  "imul t scale = t\<lparr>rows := map (map (\<lambda>x. x * scale)) (rows t)\<rparr>"

text \<open>
  \<^verbatim>\<open>t[:, cols] += p\<close>: the columns must exist (\<^verbatim>\<open>IndexError\<close> otherwise); in
  every row the elements of these columns get \<open>p\<close> added.
\<close>

definition iadd_columns :: "'a::plus tensor \<Rightarrow> nat list \<Rightarrow> 'a \<Rightarrow> pyerr + 'a tensor" where
  "iadd_columns t cols p =
     (if list_all (\<lambda>c. c < ncols t) cols
      then Inr (t\<lparr>rows := map (\<lambda>row. fold (\<lambda>c r. r[c := r ! c + p]) cols row) (rows t)\<rparr>)
      else Inl IndexError)"

text \<open>\<^verbatim>\<open>xs[i]\<close> on a list or tuple.\<close>

definition index :: "'x list \<Rightarrow> nat \<Rightarrow> pyerr + 'x" where
  "index xs i = (if i < length xs then Inr (xs ! i) else Inl IndexError)"

text \<open>
  The body of the loop over \<^verbatim>\<open>zip(targets, scales, paddings)\<close> for one target,
  whose \<^verbatim>\<open>"target_boxes"\<close> entry is \<open>boxes\<close>.  Only a tensor supports the three
  updates; for any other value one of them raises a \<^verbatim>\<open>TypeError\<close>.  The heap
  is returned as it is when the exception is raised.
\<close>

definition prepare_target ::
  "'a::{times,plus} heap \<Rightarrow> ('a, 'o) pyval \<Rightarrow> 'a \<Rightarrow> 'a list \<Rightarrow> pyerr option \<times> 'a heap" where
  "prepare_target h boxes scale padding =
     (case boxes of
        TensorRef a \<Rightarrow>
          (let h1 = h(a := imul (h a) scale) in
           case index padding 0 of
             Inl e \<Rightarrow> (Some e, h1)
           | Inr p0 \<Rightarrow>
               (case iadd_columns (h1 a) [0, 2] p0 of
                  Inl e \<Rightarrow> (Some e, h1)
                | Inr t2 \<Rightarrow>
                    (let h2 = h1(a := t2) in
                     case index padding 1 of
                       Inl e \<Rightarrow> (Some e, h2)
                     | Inr p1 \<Rightarrow>
                         (case iadd_columns (h2 a) [1, 3] p1 of
                            Inl e \<Rightarrow> (Some e, h2)
                          | Inr t3 \<Rightarrow> (None, h2(a := t3))))))
      | _ \<Rightarrow> (Some TypeError, h))"

text \<open>
  The loop \<^verbatim>\<open>for i, (target, scale, padding) in enumerate(zip(...))\<close>: it ends
  with the shortest of the three lists.
\<close>

fun prepare_targets ::
  "'a::{times,plus} heap \<Rightarrow> ('a, 'o) pyval list \<Rightarrow> 'a list \<Rightarrow> 'a list list \<Rightarrow>
   pyerr option \<times> 'a heap" where
  "prepare_targets h (boxes # bs) (scale # ss) (padding # ps) =
     (case prepare_target h boxes scale padding of
        (Some e, h') \<Rightarrow> (Some e, h')
      | (None, h') \<Rightarrow> prepare_targets h' bs ss ps)"
| "prepare_targets h _ _ _ = (None, h)"

text \<open>
  \<^verbatim>\<open>[sample[key] for sample in samples]\<close> and the dictionary comprehension
  \<^verbatim>\<open>{key: [...] for key in samples[0]}\<close> over the keys \<open>ks\<close>.
\<close>

fun column :: "key \<Rightarrow> (key \<times> 'v) list list \<Rightarrow> pyerr + 'v list" where
  "column k [] = Inr []"
| "column k (sample # rest) =
     (case getitem sample k of
        Inl e \<Rightarrow> Inl e
      | Inr v \<Rightarrow> (case column k rest of Inl e \<Rightarrow> Inl e | Inr vs \<Rightarrow> Inr (v # vs)))"

fun columns :: "key list \<Rightarrow> (key \<times> 'v) list list \<Rightarrow> pyerr + (key \<times> 'v list) list" where
  "columns [] samples = Inr []"
| "columns (k # ks) samples =
     (case column k samples of
        Inl e \<Rightarrow> Inl e
      | Inr vs \<Rightarrow> (case columns ks samples of Inl e \<Rightarrow> Inl e | Inr d \<Rightarrow> Inr ((k, vs) # d)))"

text \<open>
  \<^verbatim>\<open>[{"target_boxes": target["boxes"]} for target in targets]\<close>, as the list of
  the values found under \<^verbatim>\<open>"boxes"\<close>; a target that is not a dictionary cannot
  be indexed by a string.
\<close>

fun boxes_of :: "('a, 'o) pyval list \<Rightarrow> pyerr + ('a, 'o) pyval list" where
  "boxes_of [] = Inr []"
| "boxes_of (Dict d # rest) =
     (case getitem d (Name ''boxes'') of
        Inl e \<Rightarrow> Inl e
      | Inr b \<Rightarrow> (case boxes_of rest of Inl e \<Rightarrow> Inl e | Inr bs \<Rightarrow> Inr (b # bs)))"
| "boxes_of (_ # rest) = Inl TypeError"

text \<open>
  The block under \<^verbatim>\<open>if DataKeys.TARGET in samples.keys()\<close>: \<open>cols\<close> is the
  dictionary of lists built from the samples, \<open>batch\<close> the dictionary under
  construction.
\<close>

definition collate_targets ::
  "'a::{times,plus} heap \<Rightarrow> (key \<times> ('a, 'o) pyval list) list \<Rightarrow> 'a list \<Rightarrow> 'a list list \<Rightarrow>
   (key \<times> ('a, 'o) pyval) list \<Rightarrow> (pyerr + (key \<times> ('a, 'o) pyval) list) \<times> 'a heap" where
  "collate_targets h cols scales paddings batch =
     (case map_of cols TARGET of
        None \<Rightarrow> (Inr batch, h)
      | Some targets \<Rightarrow>
          (case boxes_of targets of
             Inl e \<Rightarrow> (Inl e, h)
           | Inr boxes \<Rightarrow>
               (case prepare_targets h boxes scales paddings of
                  (Some e, h') \<Rightarrow> (Inl e, h')
                | (None, h') \<Rightarrow>
                    (Inr (AList.update TARGET
                            (Seq (map (\<lambda>b. Dict [(Name ''target_boxes'', b)]) boxes)) batch),
                     h'))))"

text \<open>
  \<^verbatim>\<open>fastface_collate_fn(samples)\<close>.  \<open>prepare_batch\<close> is fastface's
  \<^verbatim>\<open>ff.utils.preprocess.prepare_batch(_, None, adaptive_batch=True)\<close>: it gets
  the list of inputs and returns the image batch, the scales and the
  paddings, or raises.  The function returns the new dictionary (or the
  exception) and the heap of tensors after its in-place updates.
\<close>

definition fastface_collate_fn ::
  "(('a, 'o) pyval list \<Rightarrow> pyerr + ('a, 'o) pyval \<times> 'a list \<times> 'a list list) \<Rightarrow>
   'a::{times,plus} heap \<Rightarrow> (key \<times> ('a, 'o) pyval) list list \<Rightarrow>
   (pyerr + (key \<times> ('a, 'o) pyval) list) \<times> 'a heap" where
  "fastface_collate_fn prepare_batch h samples =
     (case samples of
        [] \<Rightarrow> (Inl IndexError, h)
      | first # _ \<Rightarrow>
          (case columns (map fst first) samples of
             Inl e \<Rightarrow> (Inl e, h)
           | Inr cols \<Rightarrow>
               (case getitem cols INPUT of
                  Inl e \<Rightarrow> (Inl e, h)
                | Inr inputs \<Rightarrow>
                    (case prepare_batch inputs of
                       Inl e \<Rightarrow> (Inl e, h)
                     | Inr (images, scales, paddings) \<Rightarrow>
                         (let batch = map (\<lambda>(k, vs). (k, Seq vs)) cols;
                              batch1 = AList.update (Name ''scales'') (Seq (map Num scales)) batch;
                              batch2 = AList.update (Name ''paddings'')
                                         (Seq (map (\<lambda>p. Seq (map Num p)) paddings)) batch1
                          in case collate_targets h cols scales paddings batch2 of
                               (Inl e, h') \<Rightarrow> (Inl e, h')
                             | (Inr batch3, h') \<Rightarrow> (Inr (AList.update INPUT images batch3), h'))))))"

text \<open>
  What the update of one target's boxes amounts to, element by element: the
  tensor \<open>new\<close> has the shape of \<open>old\<close>, and each of its elements is the old
  one multiplied by the scale, then increased by \<^verbatim>\<open>padding[0]\<close> in columns 0
  and 2 and by \<^verbatim>\<open>padding[1]\<close> in columns 1 and 3.
\<close>

abbreviation scaled_and_translated ::
  "'a::{times,plus} tensor \<Rightarrow> 'a \<Rightarrow> 'a list \<Rightarrow> 'a tensor \<Rightarrow> bool" where
  "scaled_and_translated old scale padding new \<equiv>
     (ncols new = ncols old \<and> length (rows new) = length (rows old)
      \<and> (\<forall>r < length (rows old).
            length (rows new ! r) = length (rows old ! r)
            \<and> (\<forall>c < length (rows old ! r).
                  rows new ! r ! c =
                    (if c = 0 \<or> c = 2 then rows old ! r ! c * scale + padding ! 0
                     else if c = 1 \<or> c = 3 then rows old ! r ! c * scale + padding ! 1
                     else rows old ! r ! c * scale))))"


section \<open>flash/image/data.py: \<^verbatim>\<open>image_loader\<close>\<close>

text \<open>
  The extension tuples of the module.  With torchvision installed
  \<^verbatim>\<open>IMG_EXTENSIONS\<close> is imported from \<^verbatim>\<open>torchvision.datasets.folder\<close>, which
  holds the same nine extensions as the fallback written in the source.
\<close>

definition IMG_EXTENSIONS :: "string list" where
  "IMG_EXTENSIONS =
     [''.jpg'', ''.jpeg'', ''.png'', ''.ppm'', ''.bmp'', ''.pgm'', ''.tif'', ''.tiff'', ''.webp'']"

definition NP_EXTENSIONS :: "string list" where
  "NP_EXTENSIONS = [''.npy'']"

text \<open>
  Formatting a list of strings inside an f-string: \<^verbatim>\<open>repr\<close> of each element
  in single quotes (none of the extensions needs escaping), separated by a
  comma and a space, in square brackets.
\<close>

definition py_repr_str :: "string \<Rightarrow> string" where
  "py_repr_str s = [CHR 0x27] @ s @ [CHR 0x27]"

fun py_join :: "string \<Rightarrow> string list \<Rightarrow> string" where
  "py_join sep [] = []"
| "py_join sep [x] = x"
| "py_join sep (x # y # ys) = x @ sep @ py_join sep (y # ys)"

definition py_repr_list :: "string list \<Rightarrow> string" where
  "py_repr_list xs = ''['' @ py_join '', '' (map py_repr_str xs) @ '']''"

definition unsupported_extension_message :: "string \<Rightarrow> string" where
  "unsupported_extension_message filepath =
     ''File: '' @ filepath @ '' has an unsupported extension. Supported extensions: ''
       @ py_repr_list (IMG_EXTENSIONS @ NP_EXTENSIONS) @ ''.''"

text \<open>
  \<^verbatim>\<open>image_loader(filepath)\<close>.  \<^verbatim>\<open>has_file_allowed_extension\<close>
  (flash.core.data.io.input) and \<^verbatim>\<open>image_default_loader\<close>
  (flash.core.data.utils) are not in the sources and are parameters, as are
  the library calls \<^verbatim>\<open>np.load\<close>, \<^verbatim>\<open>ndarray.astype\<close> (with the name of the
  element type) and \<^verbatim>\<open>Image.fromarray\<close> (with the mode).  The function
  catches nothing: an exception of one of these calls, whatever its type,
  reaches the caller as it is.
\<close>

definition image_loader ::
  "(string \<Rightarrow> string list \<Rightarrow> bool) \<Rightarrow> (string \<Rightarrow> pyerr + 'img) \<Rightarrow>
   (string \<Rightarrow> pyerr + 'arr) \<Rightarrow> ('arr \<Rightarrow> string \<Rightarrow> pyerr + 'arr) \<Rightarrow>
   ('arr \<Rightarrow> string \<Rightarrow> pyerr + 'img) \<Rightarrow> string \<Rightarrow> pyerr + 'img" where
  "image_loader has_file_allowed_extension image_default_loader np_load astype fromarray filepath =
     (if has_file_allowed_extension filepath IMG_EXTENSIONS then
        image_default_loader filepath
      else if has_file_allowed_extension filepath NP_EXTENSIONS then
        (case np_load filepath of
           Inl e \<Rightarrow> Inl e
         | Inr arr \<Rightarrow>
             (case astype arr ''uint8'' of
                Inl e \<Rightarrow> Inl e
              | Inr uint8_arr \<Rightarrow> fromarray uint8_arr ''RGB''))
      else
        Inl (ValueError (unsupported_extension_message filepath)))"


section \<open>flash/core/Regression.py\<close>

text \<open>
  The \<^verbatim>\<open>metrics\<close> argument is a \<^verbatim>\<open>torchmetrics.Metric\<close>, a mapping or a
  sequence (or \<^verbatim>\<open>None\<close>, modelled by \<open>option\<close>).  Mappings and sequences are
  truthy exactly when they are not empty; the truthiness of a metric object and
  of a loss callable is whatever the object defines, and is a parameter.
\<close>

datatype 'm metrics_arg =
    Metric 'm
  | MetricMapping "(string \<times> 'm) list"
  | MetricSequence "'m list"

fun truthy_metrics :: "('m \<Rightarrow> bool) \<Rightarrow> 'm metrics_arg \<Rightarrow> bool" where
  "truthy_metrics truthy_m (Metric m) = truthy_m m"
| "truthy_metrics truthy_m (MetricMapping d) = (d \<noteq> [])"
| "truthy_metrics truthy_m (MetricSequence xs) = (xs \<noteq> [])"

text \<open>
  \<^verbatim>\<open>RegressionMixin._build(loss_fn, metrics)\<close>.  \<open>mse_loss\<close> is
  \<^verbatim>\<open>F.mse_loss\<close> and \<open>MeanSquaredError\<close> the object that
  \<^verbatim>\<open>torchmetrics.MeanSquaredError()\<close> constructs.  The result is the pair
  \<^verbatim>\<open>(metrics, loss_fn)\<close>, in the order of the source.
\<close>

definition RegressionMixin_build ::
  "('f \<Rightarrow> bool) \<Rightarrow> ('m \<Rightarrow> bool) \<Rightarrow> 'f \<Rightarrow> 'm \<Rightarrow>
   'f option \<Rightarrow> 'm metrics_arg option \<Rightarrow> 'm metrics_arg \<times> 'f" where
  "RegressionMixin_build truthy_f truthy_m mse_loss MeanSquaredError loss_fn metrics =
     (let metrics' = py_or (truthy_metrics truthy_m) metrics (Metric MeanSquaredError);
          loss_fn' = py_or truthy_f loss_fn mse_loss
      in (metrics', loss_fn'))"

text \<open>
  \<^verbatim>\<open>RegressionTask.__init__(*args, loss_fn, metrics, serializer, **kwargs)\<close>.
  \<^verbatim>\<open>Task.__init__\<close> (flash.core.model) is not part of the sources and is the
  parameter \<open>Task_init\<close>; whatever it returns or raises is the result.
\<close>

definition RegressionTask_init ::
  "('args \<Rightarrow> 'f \<Rightarrow> 'm metrics_arg \<Rightarrow> 's option \<Rightarrow> 'kw \<Rightarrow> pyerr + 'task) \<Rightarrow>
   ('f \<Rightarrow> bool) \<Rightarrow> ('m \<Rightarrow> bool) \<Rightarrow> 'f \<Rightarrow> 'm \<Rightarrow>
   'args \<Rightarrow> 'f option \<Rightarrow> 'm metrics_arg option \<Rightarrow> 's option \<Rightarrow> 'kw \<Rightarrow> pyerr + 'task" where
  "RegressionTask_init Task_init truthy_f truthy_m mse_loss MeanSquaredError
       args loss_fn metrics serializer kwargs =
     (case RegressionMixin_build truthy_f truthy_m mse_loss MeanSquaredError loss_fn metrics of
        (metrics', loss_fn') \<Rightarrow> Task_init args loss_fn' metrics' serializer kwargs)"


section \<open>flash/image/style_transfer/data.py\<close>

text \<open>
  A transform argument is a dictionary from hook names to callables or, in
  \<^verbatim>\<open>from_folders\<close>, the name of a registered transform; \<^verbatim>\<open>None\<close> is modelled by
  \<open>option\<close>.  The guards \<^verbatim>\<open>if val_transform:\<close> test truthiness: \<^verbatim>\<open>None\<close>, the
  empty dictionary and the empty string are falsy.
\<close>

datatype 'f transform_arg = TransformName string | TransformDict "(string \<times> 'f) list"

fun truthy_transform :: "'f transform_arg \<Rightarrow> bool" where
  "truthy_transform (TransformName s) = (s \<noteq> [])"
| "truthy_transform (TransformDict d) = (d \<noteq> [])"

definition py_bool :: "('a \<Rightarrow> bool) \<Rightarrow> 'a option \<Rightarrow> bool" where
  "py_bool truthy x = (case x of None \<Rightarrow> False | Some v \<Rightarrow> truthy v)"

text \<open>
  Modelled from the spec: \<^verbatim>\<open>raise_not_supported(phase)\<close>
  (flash.image.style_transfer.utils) is not part of the sources.  The spec
  says that unsupported configurations are rejected by raising, the
  validation and test transforms of style transfer being its example: the
  function never returns, and \<open>raise_not_supported phase\<close> is the exception it
  raises for the phase.
\<close>

definition raise_not_supported :: "string \<Rightarrow> pyerr" where
  "raise_not_supported phase = NotSupported phase"

text \<open>
  \<^verbatim>\<open>image_size\<close> is an \<^verbatim>\<open>int\<close> or already a pair;
  \<^verbatim>\<open>isinstance(image_size, int)\<close> turns the former into a square.
\<close>

datatype image_size_arg = SizeInt int | SizeTuple int int

fun image_size_pair :: "image_size_arg \<Rightarrow> int \<times> int" where
  "image_size_pair (SizeInt n) = (n, n)"
| "image_size_pair (SizeTuple a b) = (a, b)"

datatype InputFormat = FILES | FOLDERS | NUMPY | TENSORS

datatype input_cls = ImagePathsInput | ImageNumpyInput | ImageTensorInput

text \<open>
  The object under construction: the attribute \<^verbatim>\<open>image_size\<close> that
  \<^verbatim>\<open>__init__\<close> assigns, and the state that \<^verbatim>\<open>InputTransform.__init__\<close> sets up
  (\<open>Some\<close> once it has run).  Before \<^verbatim>\<open>__init__\<close> runs neither exists.
\<close>

record 'b StyleTransferInputTransform =
  image_size :: "(int \<times> int) option"
  base :: "'b option"

definition blank :: "'b StyleTransferInputTransform" where
  "blank = \<lparr>image_size = None, base = None\<rparr>"

text \<open>
  The \<^verbatim>\<open>inputs\<close> dictionary literal of \<^verbatim>\<open>__init__\<close>; the key
  \<^verbatim>\<open>InputFormat.TENSORS\<close> is written twice and is one entry.
\<close>

definition inputs :: "(InputFormat \<times> input_cls) list" where
  "inputs = [(FILES, ImagePathsInput), (FOLDERS, ImagePathsInput),
             (NUMPY, ImageNumpyInput), (TENSORS, ImageTensorInput)]"

text \<open>
  \<^verbatim>\<open>StyleTransferInputTransform.__init__\<close>, as a function from the object before
  to the exception raised (if any) and the object after.
  \<^verbatim>\<open>InputTransform.__init__\<close> (flash.core.data.io.input_transform) is not in the
  sources and is the parameter \<open>InputTransform_init\<close>: it sees the object, the
  four transforms, the inputs and the default input, and returns the base
  state or raises.
\<close>

definition StyleTransferInputTransform_init ::
  "('b StyleTransferInputTransform \<Rightarrow> 'f transform_arg option \<Rightarrow> 'f transform_arg option \<Rightarrow>
      'f transform_arg option \<Rightarrow> 'f transform_arg option \<Rightarrow>
      (InputFormat \<times> input_cls) list \<Rightarrow> InputFormat \<Rightarrow> pyerr + 'b) \<Rightarrow>
   'b StyleTransferInputTransform \<Rightarrow>
   'f transform_arg option \<Rightarrow> 'f transform_arg option \<Rightarrow>
   'f transform_arg option \<Rightarrow> 'f transform_arg option \<Rightarrow> image_size_arg \<Rightarrow>
   pyerr option \<times> 'b StyleTransferInputTransform" where
  "StyleTransferInputTransform_init InputTransform_init self
       train_transform val_transform test_transform predict_transform image_size_arg =
     (if py_bool truthy_transform val_transform then
        (Some (raise_not_supported ''validation''), self)
      else if py_bool truthy_transform test_transform then
        (Some (raise_not_supported ''test''), self)
      else
        (let self1 = self\<lparr>image_size := Some (image_size_pair image_size_arg)\<rparr> in
         case InputTransform_init self1 train_transform val_transform test_transform
                predict_transform inputs FILES of
           Inl e \<Rightarrow> (Some e, self1)
         | Inr b \<Rightarrow> (None, self1\<lparr>base := Some b\<rparr>)))"

text \<open>
  The constructor call \<^verbatim>\<open>StyleTransferInputTransform(...)\<close>: \<^verbatim>\<open>__init__\<close> runs
  on a new object; the caller gets the object only if \<^verbatim>\<open>__init__\<close> returns.
\<close>

definition new_StyleTransferInputTransform ::
  "('b StyleTransferInputTransform \<Rightarrow> 'f transform_arg option \<Rightarrow> 'f transform_arg option \<Rightarrow>
      'f transform_arg option \<Rightarrow> 'f transform_arg option \<Rightarrow>
      (InputFormat \<times> input_cls) list \<Rightarrow> InputFormat \<Rightarrow> pyerr + 'b) \<Rightarrow>
   'f transform_arg option \<Rightarrow> 'f transform_arg option \<Rightarrow>
   'f transform_arg option \<Rightarrow> 'f transform_arg option \<Rightarrow> image_size_arg \<Rightarrow>
   pyerr + 'b StyleTransferInputTransform" where
  "new_StyleTransferInputTransform InputTransform_init
       train_transform val_transform test_transform predict_transform image_size_arg =
     (case StyleTransferInputTransform_init InputTransform_init blank
             train_transform val_transform test_transform predict_transform image_size_arg of
        (Some e, _) \<Rightarrow> Inl e
      | (None, self) \<Rightarrow> Inr self)"

text \<open>
  \<^verbatim>\<open>param in kwargs and kwargs[param] is not None\<close>: a keyword argument may be
  present with the value \<^verbatim>\<open>None\<close>.
\<close>

definition given :: "(string \<times> 'v option) list \<Rightarrow> string \<Rightarrow> bool" where
  "given kwargs param = (case map_of kwargs param of Some (Some v) \<Rightarrow> True | _ \<Rightarrow> False)"

text \<open>
  \<^verbatim>\<open>StyleTransferData.from_folders\<close>.  The result comes with the list of the
  constructors it has called, in order: \<^verbatim>\<open>cls.input_transform_cls\<close> (the
  transform object) and \<^verbatim>\<open>cls.from_input\<close> (the data module).
  \<^verbatim>\<open>DataModule.from_input\<close> is not in the sources and is a parameter, as is
  the truthiness of a transform object in \<^verbatim>\<open>input_transform or ...\<close>.
\<close>

datatype constructor_call = Call_input_transform_cls | Call_from_input

definition StyleTransferData_from_folders ::
  "('b StyleTransferInputTransform \<Rightarrow> 'f transform_arg option \<Rightarrow> 'f transform_arg option \<Rightarrow>
      'f transform_arg option \<Rightarrow> 'f transform_arg option \<Rightarrow>
      (InputFormat \<times> input_cls) list \<Rightarrow> InputFormat \<Rightarrow> pyerr + 'b) \<Rightarrow>
   ('b StyleTransferInputTransform \<Rightarrow> bool) \<Rightarrow>
   (InputFormat \<Rightarrow> 'p option \<Rightarrow> 'p option \<Rightarrow> 'b StyleTransferInputTransform \<Rightarrow>
      (string \<times> 'v option) list \<Rightarrow> pyerr + 'dm) \<Rightarrow>
   'p option \<Rightarrow> 'p option \<Rightarrow> 'f transform_arg option \<Rightarrow> 'f transform_arg option \<Rightarrow>
   'b StyleTransferInputTransform option \<Rightarrow> (string \<times> 'v option) list \<Rightarrow>
   constructor_call list \<times> (pyerr + 'dm)" where
  "StyleTransferData_from_folders InputTransform_init truthy_input_transform from_input
       train_folder predict_folder train_transform predict_transform input_transform kwargs =
     (if list_ex (given kwargs) [''val_folder'', ''val_transform''] then
        ([], Inl (raise_not_supported ''validation''))
      else if list_ex (given kwargs) [''test_folder'', ''test_transform''] then
        ([], Inl (raise_not_supported ''test''))
      else
        (let constructed =
               ([Call_input_transform_cls],
                new_StyleTransferInputTransform InputTransform_init
                  train_transform None None predict_transform (SizeInt 256))
         in case (case input_transform of
                    None \<Rightarrow> constructed
                  | Some t \<Rightarrow> if truthy_input_transform t then ([], Inr t) else constructed) of
              (calls, Inl e) \<Rightarrow> (calls, Inl e)
            | (calls, Inr input_transform') \<Rightarrow>
                (calls @ [Call_from_input],
                 from_input FOLDERS train_folder predict_folder input_transform' kwargs)))"


section \<open>flash.core.data.io.input_base, as its test describes it\<close>

text \<open>
  The data of an input object: a list (a sequence with a length) or an
  iterator over the items still to come.
\<close>

datatype 'x data_source = ListBacked "'x list" | IteratorBacked "'x list"

datatype input_base = Input | IterableInput

text \<open>
  Modelled from the spec: \<^verbatim>\<open>Input\<close> and \<^verbatim>\<open>IterableInput\<close>
  (flash.core.data.io.input_base) are not part of the sources; only their
  test is.  The spec says that constructing the one loader base class with a
  list-backed data source must succeed and with an iterator-backed source
  must fail with a specific error message, and the other way round for the
  iterable-oriented counterpart.  The test fixes the exception,
  \<^verbatim>\<open>RuntimeError\<close>, and a pattern that the message matches; the message is
  taken to be some text \<open>preamble\<close>, about which nothing is known, followed by
  the sentence of the pattern.  The backquote is \<open>CHR 0x60\<close>.
\<close>

definition use_instead :: "string \<Rightarrow> string" where
  "use_instead cls = ''Use '' @ [CHR 0x60] @ cls @ [CHR 0x60] @ '' instead.''"

fun construct :: "string \<Rightarrow> input_base \<Rightarrow> 'x data_source \<Rightarrow> pyerr + input_base \<times> 'x data_source" where
  "construct preamble Input (ListBacked xs) = Inr (Input, ListBacked xs)"
| "construct preamble Input (IteratorBacked xs) =
     Inl (RuntimeError (preamble @ use_instead ''IterableInput''))"
| "construct preamble IterableInput (ListBacked xs) =
     Inl (RuntimeError (preamble @ use_instead ''Input''))"
| "construct preamble IterableInput (IteratorBacked xs) = Inr (IterableInput, IteratorBacked xs)"

text \<open>
  \<^verbatim>\<open>pytest.raises(..., match=pattern)\<close> searches the message with
  \<^verbatim>\<open>re.search\<close>.  In the patterns of the test every character stands for
  itself, except the dot, which matches any character but a newline.
\<close>

fun re_match_here :: "string \<Rightarrow> string \<Rightarrow> bool" where
  "re_match_here [] s = True"
| "re_match_here (p # ps) [] = False"
| "re_match_here (p # ps) (c # cs) =
     ((if p = CHR ''.'' then c \<noteq> CHR 0x0A else p = c) \<and> re_match_here ps cs)"

fun re_search :: "string \<Rightarrow> string \<Rightarrow> bool" where
  "re_search p [] = re_match_here p []"
| "re_search p (c # cs) = (re_match_here p (c # cs) \<or> re_search p cs)"


section \<open>Deserializing a Base64 payload\<close>

lemma length_table_b2a_base64: "length table_b2a_base64 = 64"
  by (simp add: table_b2a_base64_def)

lemma distinct_table_b2a_base64: "distinct table_b2a_base64"
  by (simp add: table_b2a_base64_def)

lemma BASE64_PAD_notin_table: "BASE64_PAD \<notin> set table_b2a_base64"
  by (simp add: table_b2a_base64_def BASE64_PAD_def)

lemma table_b2a_base64_ascii: "w \<in> set table_b2a_base64 \<Longrightarrow> unat w < 128"
  by (auto simp: table_b2a_base64_def)

lemma b2a_in_table: "unat w < 64 \<Longrightarrow> b2a w \<in> set table_b2a_base64"
  by (simp add: b2a_def length_table_b2a_base64)

lemma a2b_b2a:
  assumes "unat w < 64"
  shows "b2a w \<noteq> BASE64_PAD" and "table_a2b_base64 (b2a w) = w"
    and "\<not> table_a2b_base64 (b2a w) \<ge> 64"
proof -
  from assms b2a_in_table BASE64_PAD_notin_table show "b2a w \<noteq> BASE64_PAD"
    by metis
  from assms have "map_of (zip table_b2a_base64 [0..<64]) (table_b2a_base64 ! unat w)
      = Some ([0..<64] ! unat w)"
    by (intro map_of_zip_nth) (simp_all add: length_table_b2a_base64 distinct_table_b2a_base64)
  with assms show eq: "table_a2b_base64 (b2a w) = w"
    by (simp add: table_a2b_base64_def b2a_def)
  from assms show "\<not> table_a2b_base64 (b2a w) \<ge> 64"
    unfolding eq by (simp add: word_le_nat_alt)
qed

lemma bit_position_cases:
  "n < 8 \<Longrightarrow> n = 0 \<or> n = 1 \<or> n = 2 \<or> n = 3 \<or> n = 4 \<or> n = 5 \<or> n = 6 \<or> n = (7::nat)"
  by arith

lemma mask_numerals:
  "(3 :: byte) = mask 2" "(15 :: byte) = mask 4" "(63 :: byte) = mask 6"
  by (simp_all add: mask_eq_exp_minus_1)

lemma byte_eqI:
  fixes x y :: byte
  assumes "bit x 0 = bit y 0" "bit x 1 = bit y 1" "bit x 2 = bit y 2" "bit x 3 = bit y 3"
    "bit x 4 = bit y 4" "bit x 5 = bit y 5" "bit x 6 = bit y 6" "bit x 7 = bit y 7"
  shows "x = y"
proof (rule bit_word_eqI)
  fix n assume "n < LENGTH(8)"
  then have "n < 8" by simp
  from bit_position_cases [OF this] assms show "bit x n = bit y n"
    by (elim disjE) simp_all
qed

lemma high_bits: "8 \<le> n \<Longrightarrow> \<not> bit (a :: byte) n"
  using bit_imp_le_length [of a n] by auto

lemma first_byte: "push_bit 2 (drop_bit 2 a) OR drop_bit 4 (push_bit 4 (a AND 3) OR drop_bit 4 b) = (a :: byte)"
  by (rule byte_eqI) (simp_all add: bit_simps mask_numerals)

lemma first_byte_last: "push_bit 2 (drop_bit 2 a) OR drop_bit 4 (push_bit 4 (a AND 3)) = (a :: byte)"
  by (rule byte_eqI) (simp_all add: bit_simps mask_numerals)

lemma second_byte:
  "push_bit 4 ((push_bit 4 (a AND 3) OR drop_bit 4 b) AND 15)
     OR drop_bit 2 (push_bit 2 (b AND 15) OR drop_bit 6 c) = (b :: byte)"
  by (rule byte_eqI) (simp_all add: bit_simps mask_numerals)

lemma second_byte_last:
  "push_bit 4 ((push_bit 4 (a AND 3) OR drop_bit 4 b) AND 15)
     OR drop_bit 2 (push_bit 2 (b AND 15)) = (b :: byte)"
  by (rule byte_eqI) (simp_all add: bit_simps mask_numerals)

lemma third_byte:
  "push_bit 6 ((push_bit 2 (b AND 15) OR drop_bit 6 c) AND 3) OR (c AND 63) = (c :: byte)"
  by (rule byte_eqI) (simp_all add: bit_simps mask_numerals)

lemma six_bits:
  fixes x :: byte
  assumes "x AND 63 = x"
  shows "unat x < 64"
proof -
  have "x AND 63 \<le> 63" by (rule word_and_le1)
  with assms have "x \<le> 63" by simp
  then show ?thesis by (simp add: word_le_nat_alt)
qed

lemma six_bits_1: "unat (drop_bit 2 (a :: byte)) < 64"
  by (rule six_bits, rule byte_eqI) (simp_all add: bit_simps mask_numerals high_bits)

lemma six_bits_2: "unat (push_bit 4 (a AND 3) OR drop_bit 4 (b :: byte)) < 64"
  by (rule six_bits, rule byte_eqI) (simp_all add: bit_simps mask_numerals high_bits)

lemma six_bits_2_last: "unat (push_bit 4 ((a :: byte) AND 3)) < 64"
  by (rule six_bits, rule byte_eqI) (simp_all add: bit_simps mask_numerals high_bits)

lemma six_bits_3: "unat (push_bit 2 (b AND 15) OR drop_bit 6 (c :: byte)) < 64"
  by (rule six_bits, rule byte_eqI) (simp_all add: bit_simps mask_numerals high_bits)

lemma six_bits_3_last: "unat (push_bit 2 ((b :: byte) AND 15)) < 64"
  by (rule six_bits, rule byte_eqI) (simp_all add: bit_simps mask_numerals high_bits)

lemma six_bits_4: "unat ((c :: byte) AND 63) < 64"
  by (rule six_bits, rule byte_eqI) (simp_all add: bit_simps mask_numerals high_bits)

lemma loop_pads_0: "a2b_base64_loop 0 l p (replicate m BASE64_PAD) out = Inr out"
  by (induction m) simp_all

lemma loop_pads_2:
  assumes "2 \<le> m"
  shows "a2b_base64_loop 2 l 0 (replicate m BASE64_PAD) out = Inr out"
proof -
  from assms obtain m' where "m = Suc (Suc m')"
    by (metis Suc_le_D numeral_2_eq_2 Suc_le_mono)
  then show ?thesis by simp
qed

lemma loop_pads_3:
  assumes "1 \<le> m"
  shows "a2b_base64_loop 3 l 0 (replicate m BASE64_PAD) out = Inr out"
proof -
  from assms obtain m' where "m = Suc m'"
    by (metis Suc_le_D One_nat_def)
  then show ?thesis by simp
qed

lemma loop_step:
  assumes "unat v < 64"
  shows "a2b_base64_loop 0 l p (b2a v # rest) out = a2b_base64_loop 1 v 0 rest out"
    and "a2b_base64_loop 1 l p (b2a v # rest) out
           = a2b_base64_loop 2 (v AND 15) 0 rest (out @ [push_bit 2 l OR drop_bit 4 v])"
    and "a2b_base64_loop 2 l p (b2a v # rest) out
           = a2b_base64_loop 3 (v AND 3) 0 rest (out @ [push_bit 4 l OR drop_bit 2 v])"
    and "a2b_base64_loop 3 l p (b2a v # rest) out
           = a2b_base64_loop 0 0 0 rest (out @ [push_bit 6 l OR v])"
  using a2b_b2a [OF assms] by (simp_all add: Let_def)

lemma loop_group:
  "a2b_base64_loop 0 l p
     (b2a (drop_bit 2 a) # b2a (push_bit 4 (a AND 3) OR drop_bit 4 b)
        # b2a (push_bit 2 (b AND 15) OR drop_bit 6 c) # b2a (c AND 63) # rest) out
   = a2b_base64_loop 0 0 0 rest (out @ [a, b, c])"
  by (simp only: loop_step(1) [OF six_bits_1] loop_step(2) [OF six_bits_2]
        loop_step(3) [OF six_bits_3] loop_step(4) [OF six_bits_4]
        first_byte second_byte third_byte append_assoc append_Cons append_Nil)

lemma loop_last_1:
  "2 \<le> m \<Longrightarrow>
   a2b_base64_loop 0 l p
     (b2a (drop_bit 2 a) # b2a (push_bit 4 (a AND 3)) # replicate m BASE64_PAD) out
   = Inr (out @ [a])"
  by (simp only: loop_step(1) [OF six_bits_1] loop_step(2) [OF six_bits_2_last]
        first_byte_last loop_pads_2)

lemma loop_last_2:
  "1 \<le> m \<Longrightarrow>
   a2b_base64_loop 0 l p
     (b2a (drop_bit 2 a) # b2a (push_bit 4 (a AND 3) OR drop_bit 4 b)
        # b2a (push_bit 2 (b AND 15)) # replicate m BASE64_PAD) out
   = Inr (out @ [a, b])"
  by (simp only: loop_step(1) [OF six_bits_1] loop_step(2) [OF six_bits_2]
        loop_step(3) [OF six_bits_3_last] first_byte second_byte_last loop_pads_3
        append_assoc append_Cons append_Nil)

lemma b64encode_decode:
  "\<exists>d n. b64encode b = d @ replicate n BASE64_PAD
     \<and> (d = [] \<or> last d \<noteq> BASE64_PAD)
     \<and> set d \<subseteq> set table_b2a_base64
     \<and> (\<forall>m l p out. 2 \<le> m \<longrightarrow>
           a2b_base64_loop 0 l p (d @ replicate m BASE64_PAD) out = Inr (out @ b))"
proof (induction b rule: b64encode.induct)
  case 1
  show ?case
    by (rule exI [of _ "[]"], rule exI [of _ 0]) (simp add: loop_pads_0)
next
  case (2 a)
  let ?d = "[b2a (drop_bit 2 a), b2a (push_bit 4 (a AND 3))]"
  have A: "b64encode [a] = ?d @ replicate 2 BASE64_PAD"
    by (simp add: numeral_2_eq_2)
  have B: "?d = [] \<or> last ?d \<noteq> BASE64_PAD"
    using a2b_b2a(1) [OF six_bits_2_last, of a] by (simp del: push_bit_and)
  have C: "set ?d \<subseteq> set table_b2a_base64"
    using b2a_in_table [OF six_bits_1, of a] b2a_in_table [OF six_bits_2_last, of a]
    by (simp del: push_bit_and)
  have D: "\<forall>m l p out. 2 \<le> m \<longrightarrow>
           a2b_base64_loop 0 l p (?d @ replicate m BASE64_PAD) out = Inr (out @ [a])"
  proof (intro allI impI)
    fix m l p out assume "2 \<le> (m::nat)"
    from loop_last_1 [OF this]
    show "a2b_base64_loop 0 l p (?d @ replicate m BASE64_PAD) out = Inr (out @ [a])"
      by (simp only: append_Cons append_Nil)
  qed
  show ?case
    by (rule exI [of _ ?d], rule exI [of _ 2]) (intro conjI A B C D)
next
  case (3 a b)
  let ?d = "[b2a (drop_bit 2 a), b2a (push_bit 4 (a AND 3) OR drop_bit 4 b),
             b2a (push_bit 2 (b AND 15))]"
  have A: "b64encode [a, b] = ?d @ replicate 1 BASE64_PAD"
    by simp
  have B: "?d = [] \<or> last ?d \<noteq> BASE64_PAD"
    using a2b_b2a(1) [OF six_bits_3_last, of b] by (simp del: push_bit_and)
  have C: "set ?d \<subseteq> set table_b2a_base64"
    using b2a_in_table [OF six_bits_1, of a] b2a_in_table [OF six_bits_2, of a b]
      b2a_in_table [OF six_bits_3_last, of b]
    by (simp del: push_bit_and)
  have D: "\<forall>m l p out. 2 \<le> m \<longrightarrow>
           a2b_base64_loop 0 l p (?d @ replicate m BASE64_PAD) out = Inr (out @ [a, b])"
  proof (intro allI impI)
    fix m l p out assume "2 \<le> (m::nat)"
    then have "1 \<le> m" by simp
    from loop_last_2 [OF this]
    show "a2b_base64_loop 0 l p (?d @ replicate m BASE64_PAD) out = Inr (out @ [a, b])"
      by (simp only: append_Cons append_Nil)
  qed
  show ?case
    by (rule exI [of _ ?d], rule exI [of _ 1]) (intro conjI A B C D)
next
  case (4 a b c rest)
  then obtain d n where enc: "b64encode rest = d @ replicate n BASE64_PAD"
    and last: "d = [] \<or> last d \<noteq> BASE64_PAD"
    and tab: "set d \<subseteq> set table_b2a_base64"
    and dec: "\<forall>m l p out. 2 \<le> m \<longrightarrow>
           a2b_base64_loop 0 l p (d @ replicate m BASE64_PAD) out = Inr (out @ rest)"
    by blast
  let ?four = "[b2a (drop_bit 2 a), b2a (push_bit 4 (a AND 3) OR drop_bit 4 b),
                b2a (push_bit 2 (b AND 15) OR drop_bit 6 c), b2a (c AND 63)]"
  have A: "b64encode (a # b # c # rest) = (?four @ d) @ replicate n BASE64_PAD"
    by (simp add: enc)
  have B: "?four @ d = [] \<or> last (?four @ d) \<noteq> BASE64_PAD"
    using last a2b_b2a(1) [OF six_bits_4, of c] by auto
  have C: "set (?four @ d) \<subseteq> set table_b2a_base64"
    using tab b2a_in_table [OF six_bits_1, of a] b2a_in_table [OF six_bits_2, of a b]
      b2a_in_table [OF six_bits_3, of b c] b2a_in_table [OF six_bits_4, of c]
    by (simp del: push_bit_and)
  have D: "\<forall>m l p out. 2 \<le> m \<longrightarrow>
           a2b_base64_loop 0 l p ((?four @ d) @ replicate m BASE64_PAD) out
             = Inr (out @ a # b # c # rest)"
    using dec by (simp only: append_Cons append_Nil append_assoc loop_group) simp
  show ?case
    by (rule exI [of _ "?four @ d"], rule exI [of _ n]) (intro conjI A B C D)
qed

lemma byte_of_char_of_byte: "word_of_nat (of_char (char_of (unat (w :: byte))) :: nat) = w"
proof -
  have "unat w < 256" using unsigned_less [of w, where ?'a = nat] by simp
  then show ?thesis by (simp add: of_char_of)
qed

lemma ascii_char_of_byte: "unat (w :: byte) < 128 \<Longrightarrow> (of_char (char_of (unat w)) :: nat) < 128"
  by (simp add: of_char_of)

lemma char_of_BASE64_PAD: "char_of (unat BASE64_PAD) = CHR ''=''"
proof -
  have "unat BASE64_PAD = of_char CHR ''=''" by (simp add: BASE64_PAD_def)
  then show ?thesis by (simp only: char_of_char)
qed

lemma replicate_append_3: "replicate k x @ [x, x, x] = replicate (k + 3) x"
proof -
  have "[x, x, x] = replicate 3 x" by (simp add: numeral_3_eq_3)
  then show ?thesis by (simp only: replicate_add)
qed

lemma char_of_byte_eq_pad:
  assumes "char_of (unat (w :: byte)) = CHR ''=''"
  shows "w = BASE64_PAD"
proof -
  from assms have "word_of_nat (of_char (char_of (unat w)) :: nat) = (BASE64_PAD :: byte)"
    by (simp add: BASE64_PAD_def)
  then show ?thesis by (simp only: byte_of_char_of_byte)
qed

lemma encode_ascii_chars:
  assumes "\<forall>w \<in> set bs. unat w < 128"
  shows "encode_ascii (map (\<lambda>w. char_of (unat w)) bs) = Inr bs"
proof -
  from assms have "list_all (\<lambda>c. (of_char c :: nat) < 128) (map (\<lambda>w. char_of (unat w)) bs)"
    by (simp add: list_all_iff ascii_char_of_byte del: of_char_of)
  moreover have "map (\<lambda>c. word_of_nat (of_char c)) (map (\<lambda>w. char_of (unat w)) bs) = bs"
    by (induction bs) (simp_all add: byte_of_char_of_byte del: of_char_of)
  ultimately show ?thesis by (simp only: encode_ascii_def if_True)
qed

lemma strip_replicate:
  "xs @ replicate n x = ys @ replicate j x \<Longrightarrow> xs = [] \<or> last xs \<noteq> x \<Longrightarrow>
   j \<le> n \<and> ys = xs @ replicate (n - j) x"
proof (induction n arbitrary: j)
  case 0
  show ?case
  proof (cases j)
    case 0
    with "0.prems" show ?thesis by simp
  next
    case (Suc j')
    with "0.prems"(1) have "xs = (ys @ replicate j' x) @ [x]"
      by (simp add: replicate_append_same)
    then have "xs \<noteq> [] \<and> last xs = x" by simp
    with "0.prems"(2) show ?thesis by blast
  qed
next
  case (Suc n)
  show ?case
  proof (cases j)
    case 0
    with Suc.prems show ?thesis by simp
  next
    case (Suc j')
    from Suc.prems(1) have "(xs @ replicate n x) @ [x] = (ys @ replicate j' x) @ [x]"
      unfolding Suc by (simp add: replicate_append_same)
    then have "xs @ replicate n x = ys @ replicate j' x" by (simp only: append1_eq_conv)
    from Suc.IH [OF this Suc.prems(2)] show ?thesis unfolding Suc by simp
  qed
qed

lemma b64decode_stripped:
  assumes data: "b64encode_str b = data @ replicate j (CHR ''='')"
  shows "\<exists>encoded. encode_ascii (data @ ''==='') = Inr encoded \<and> b64decode encoded = Inr b"
proof -
  let ?chr = "\<lambda>w :: byte. char_of (unat w) :: char"
  from b64encode_decode [of b] obtain d n where
    enc: "b64encode b = d @ replicate n BASE64_PAD"
    and last: "d = [] \<or> last d \<noteq> BASE64_PAD"
    and tab: "set d \<subseteq> set table_b2a_base64"
    and dec: "\<forall>m l p out. 2 \<le> m \<longrightarrow>
           a2b_base64_loop 0 l p (d @ replicate m BASE64_PAD) out = Inr (out @ b)"
    by blast
  have "b64encode_str b = map ?chr d @ replicate n (CHR ''='')"
    by (simp add: b64encode_str_def enc char_of_BASE64_PAD)
  with data have eq: "map ?chr d @ replicate n (CHR ''='') = data @ replicate j (CHR ''='')"
    by simp
  have "map ?chr d = [] \<or> last (map ?chr d) \<noteq> CHR ''=''"
  proof (cases "d = []")
    case True
    then show ?thesis by simp
  next
    case False
    with last have "last d \<noteq> BASE64_PAD" by simp
    then have "?chr (last d) \<noteq> CHR ''=''" using char_of_byte_eq_pad by blast
    with False show ?thesis by (simp add: last_map)
  qed
  from strip_replicate [OF eq this]
  have data_eq: "data = map ?chr d @ replicate (n - j) (CHR ''='')" by simp
  let ?m = "n - j + 3"
  let ?encoded = "d @ replicate ?m BASE64_PAD"
  have "data @ ''==='' = map ?chr ?encoded"
    unfolding data_eq
    by (simp only: append_assoc replicate_append_3 map_append map_replicate char_of_BASE64_PAD)
  moreover have "\<forall>w \<in> set ?encoded. unat w < 128"
    using tab table_b2a_base64_ascii by (auto simp: BASE64_PAD_def)
  ultimately have A: "encode_ascii (data @ ''==='') = Inr ?encoded"
    by (simp only: encode_ascii_chars)
  have "2 \<le> ?m" by simp
  with dec have "a2b_base64_loop 0 0 0 ?encoded [] = Inr ([] @ b)" by blast
  then have B: "b64decode ?encoded = Inr b"
    by (simp add: b64decode_def a2b_base64_def)
  from A B show ?thesis by blast
qed

text \<open>
  C1 (amended).  Let \<open>data\<close> be the Base64 encoding of a byte string \<open>b\<close> from
  which any number \<open>j\<close> of its trailing padding characters \<^verbatim>\<open>=\<close> have been
  removed (none, some or all of them).  Then \<^verbatim>\<open>data + "==="\<close> is ASCII and
  \<^verbatim>\<open>base64.b64decode\<close> decodes it to exactly the bytes \<open>b\<close>, and
  \<^verbatim>\<open>ImageDeserializer.deserialize(data)\<close> does what \<^verbatim>\<open>Image.open\<close> does on
  \<open>b\<close>: when \<^verbatim>\<open>Image.open\<close> returns an image, it returns the mapping that holds
  this image, and nothing else, under the input key; when \<^verbatim>\<open>Image.open\<close>
  raises (the bytes are not an image file), it raises the same exception.
  The decorator \<^verbatim>\<open>@requires("image")\<close> is taken to return the method
  unchanged, as it does when the image libraries are installed.
\<close>

theorem deserialize_base64:
  assumes "\<forall>f. requires_image f = f"
    and "b64encode_str b = data @ replicate j (CHR ''='')"
  shows "(\<exists>encoded. encode_ascii (data @ ''==='') = Inr encoded \<and> b64decode encoded = Inr b)
    \<and> ImageDeserializer_deserialize requires_image Image_open data
        = (case Image_open b of Inl e \<Rightarrow> Inl e | Inr img \<Rightarrow> Inr [(INPUT, img)])
    \<and> (Image_open b = Inr img \<longrightarrow>
          ImageDeserializer_deserialize requires_image Image_open data = Inr [(INPUT, img)])
    \<and> (Image_open b = Inl e \<longrightarrow>
          ImageDeserializer_deserialize requires_image Image_open data = Inl e)"
proof -
  from b64decode_stripped [OF assms(2)] obtain encoded where
    A: "encode_ascii (data @ ''==='') = Inr encoded" and B: "b64decode encoded = Inr b"
    by blast
  from assms(1) have "requires_image f = f" for f
    by simp
  then have C: "ImageDeserializer_deserialize requires_image Image_open data
        = (case Image_open b of Inl e \<Rightarrow> Inl e | Inr img \<Rightarrow> Inr [(INPUT, img)])"
    by (simp add: ImageDeserializer_deserialize_def A B)
  have D: "Image_open b = Inr img \<longrightarrow>
          ImageDeserializer_deserialize requires_image Image_open data = Inr [(INPUT, img)]"
    unfolding C by simp
  have E: "Image_open b = Inl e \<longrightarrow>
          ImageDeserializer_deserialize requires_image Image_open data = Inl e"
    unfolding C by simp
  from A B have F: "\<exists>encoded. encode_ascii (data @ ''==='') = Inr encoded \<and> b64decode encoded = Inr b"
    by blast
  show ?thesis by (intro conjI F C D E)
qed

theorem deserialize_base64_witness:
  "b64encode_str [77, 97, 110, 255] = ''TWFu/w==''
   \<and> ImageDeserializer_deserialize (\<lambda>f. f) (\<lambda>bs. Inr (map unat bs)) ''TWFu/w''
       = Inr [(INPUT, [77, 97, 110, 255])]
   \<and> ImageDeserializer_deserialize (\<lambda>f. f) (\<lambda>bs. Inr (map unat bs)) ''TWFu/w=''
       = Inr [(INPUT, [77, 97, 110, 255])]
   \<and> ImageDeserializer_deserialize (\<lambda>f. f) (\<lambda>bs. Inr (map unat bs)) ''TWFu/w==''
       = Inr [(INPUT, [77, 97, 110, 255])]"
proof -
  have enc: "b64encode_str [77, 97, 110, 255] = ''TWFu/w==''"
    by code_simp
  have req: "\<forall>f :: string \<Rightarrow> pyerr + (key \<times> nat list) list. (\<lambda>f. f) f = f"
    by simp
  have e2: "b64encode_str [77, 97, 110, 255] = ''TWFu/w'' @ replicate 2 (CHR ''='')"
    and e1: "b64encode_str [77, 97, 110, 255] = ''TWFu/w='' @ replicate 1 (CHR ''='')"
    and e0: "b64encode_str [77, 97, 110, 255] = ''TWFu/w=='' @ replicate 0 (CHR ''='')"
    unfolding enc by (simp_all add: numeral_2_eq_2)
  note th = deserialize_base64 [where requires_image = "\<lambda>f. f"
      and Image_open = "\<lambda>bs. Inr (map unat bs)" and b = "[77, 97, 110, 255]", OF req]
  have a: "ImageDeserializer_deserialize (\<lambda>f. f) (\<lambda>bs. Inr (map unat bs)) ''TWFu/w''
       = Inr [(INPUT, [77, 97, 110, 255])]"
    using th [OF e2, THEN conjunct2, THEN conjunct1] by simp
  have b: "ImageDeserializer_deserialize (\<lambda>f. f) (\<lambda>bs. Inr (map unat bs)) ''TWFu/w=''
       = Inr [(INPUT, [77, 97, 110, 255])]"
    using th [OF e1, THEN conjunct2, THEN conjunct1] by simp
  have c: "ImageDeserializer_deserialize (\<lambda>f. f) (\<lambda>bs. Inr (map unat bs)) ''TWFu/w==''
       = Inr [(INPUT, [77, 97, 110, 255])]"
    using th [OF e0, THEN conjunct2, THEN conjunct1] by simp
  show ?thesis by (intro conjI enc a b c)
qed

text \<open>
  The claim as it was worded, for every byte string, fails for bytes that
  are not an image file: \<^verbatim>\<open>Image.open\<close> raises for them (PIL's
  \<^verbatim>\<open>UnidentifiedImageError\<close>, an \<^verbatim>\<open>OSError\<close>) and \<^verbatim>\<open>deserialize\<close> returns no
  mapping.  Here \<open>b\<close> is the empty byte string, whose encoding is the empty
  string.
\<close>

theorem deserialize_not_an_image:
  "b64encode_str [] = ''''
   \<and> (ImageDeserializer_deserialize (\<lambda>f. f)
        (\<lambda>bs. if bs = [] then Inl (OSError ''cannot identify image file'') else Inr bs) ''''
        :: pyerr + (key \<times> byte list) list)
     = Inl (OSError ''cannot identify image file'')"
  by (simp add: b64encode_str_def ImageDeserializer_deserialize_def encode_ascii_def
        b64decode_def a2b_base64_def BASE64_PAD_def)


section \<open>Grouping sample indices by label\<close>

lemma map_of_defaultdict_append:
  "map_of (defaultdict_append out l idx) l' =
     (if l' = l then Some ((case map_of out l of None \<Rightarrow> [] | Some idxs \<Rightarrow> idxs) @ [idx])
      else map_of out l')"
  by (simp add: defaultdict_append_def update_conv')

lemma distinct_defaultdict_append:
  "distinct (map fst out) \<Longrightarrow> distinct (map fst (defaultdict_append out l idx))"
  by (simp add: defaultdict_append_def distinct_update)

lemma mset_update_append:
  "mset (concat (map snd (AList.update l ((case map_of out l of None \<Rightarrow> [] | Some xs \<Rightarrow> xs) @ [i]) out)))
     = add_mset i (mset (concat (map snd out)))"
  by (induction out) auto

lemma mset_defaultdict_append:
  "mset (concat (map snd (defaultdict_append out l idx))) = add_mset idx (mset (concat (map snd out)))"
  unfolding defaultdict_append_def by (rule mset_update_append)

lemma positions_Nil: "positions l idx [] = []" by (simp add: positions_def)
lemma positions_Cons: "positions l idx (x # xs) = (if x = l then [idx] else []) @ positions l (Suc idx) xs"
  by (simp add: positions_def upt_conv_Cons del: upt_Suc)

lemma positions_absent: "l \<notin> set ls \<Longrightarrow> positions l idx ls = []"
  by (induction ls arbitrary: idx) (auto simp: positions_Nil positions_Cons)

lemma step_lookup:
  assumes look: "\<And>l'. m' l' =
           (if l' \<in> set ls
            then Some ((case map_of (defaultdict_append out l idx) l' of None \<Rightarrow> [] | Some xs \<Rightarrow> xs)
                       @ positions l' (Suc idx) ls)
            else map_of (defaultdict_append out l idx) l')"
  shows "m' l' =
           (if l' \<in> set (l # ls)
            then Some ((case map_of out l' of None \<Rightarrow> [] | Some xs \<Rightarrow> xs) @ positions l' idx (l # ls))
            else map_of out l')"
proof (cases "l' = l")
  case True
  show ?thesis
  proof (cases "l \<in> set ls")
    case True
    with \<open>l' = l\<close> show ?thesis
      apply (subst look)
      apply (simp only: map_of_defaultdict_append positions_Cons)
      apply simp
      done
  next
    case False
    with \<open>l' = l\<close> show ?thesis
      apply (subst look)
      apply (simp only: map_of_defaultdict_append positions_Cons positions_absent)
      apply (simp add: positions_absent)
      done
  qed
next
  case False
  then show ?thesis
    apply (subst look)
    apply (simp only: map_of_defaultdict_append positions_Cons)
    apply auto
    done
qed

lemma labels_to_indices_loop_ok:
  "list_all2 (\<lambda>s l. sample_label h t it s = Inr l) data ls \<Longrightarrow>
   \<exists>out'. labels_to_indices_loop h t it idx data out = Inr out'
     \<and> (\<forall>l. map_of out' l =
           (if l \<in> set ls
            then Some ((case map_of out l of None \<Rightarrow> [] | Some xs \<Rightarrow> xs) @ positions l idx ls)
            else map_of out l))
     \<and> (distinct (map fst out) \<longrightarrow> distinct (map fst out'))
     \<and> mset (concat (map snd out')) = mset (concat (map snd out)) + mset [idx..<idx + length ls]"
proof (induction data ls arbitrary: idx out rule: list_all2_induct)
  case Nil
  show ?case by (simp add: positions_Nil)
next
  case (Cons s data l ls)
  from Cons.IH [of "Suc idx" "defaultdict_append out l idx"]
  obtain out' where ih:
    "labels_to_indices_loop h t it (Suc idx) data (defaultdict_append out l idx) = Inr out'
     \<and> (\<forall>l'. map_of out' l' =
           (if l' \<in> set ls
            then Some ((case map_of (defaultdict_append out l idx) l' of None \<Rightarrow> [] | Some xs \<Rightarrow> xs)
                       @ positions l' (Suc idx) ls)
            else map_of (defaultdict_append out l idx) l'))
     \<and> (distinct (map fst (defaultdict_append out l idx)) \<longrightarrow> distinct (map fst out'))
     \<and> mset (concat (map snd out')) =
         mset (concat (map snd (defaultdict_append out l idx))) + mset [Suc idx..<Suc idx + length ls]"
    ..
  note run = ih [THEN conjunct1]
  note look0 = ih [THEN conjunct2, THEN conjunct1]
  note dist = ih [THEN conjunct2, THEN conjunct2, THEN conjunct1]
  note ms = ih [THEN conjunct2, THEN conjunct2, THEN conjunct2]
  have 1: "labels_to_indices_loop h t it idx (s # data) out = Inr out'"
    using Cons.hyps(1) run by simp
  have 2: "map_of out' l' =
           (if l' \<in> set (l # ls)
            then Some ((case map_of out l' of None \<Rightarrow> [] | Some xs \<Rightarrow> xs) @ positions l' idx (l # ls))
            else map_of out l')" for l'
    by (rule step_lookup) (rule look0 [rule_format])
  have 3: "distinct (map fst out) \<longrightarrow> distinct (map fst out')"
    using dist by (simp add: distinct_defaultdict_append)
  have "[idx..<idx + length (l # ls)] = idx # [Suc idx..<Suc idx + length ls]"
    by (simp add: upt_conv_Cons del: upt_Suc)
  then have 4: "mset (concat (map snd out')) = mset (concat (map snd out)) + mset [idx..<idx + length (l # ls)]"
    by (simp add: ms mset_defaultdict_append del: upt_Suc)
  show ?case
  proof (intro exI conjI allI)
    show "labels_to_indices_loop h t it idx (s # data) out = Inr out'" by (rule 1)
    show "map_of out' l' =
           (if l' \<in> set (l # ls)
            then Some ((case map_of out l' of None \<Rightarrow> [] | Some xs \<Rightarrow> xs) @ positions l' idx (l # ls))
            else map_of out l')" for l' by (rule 2)
    show "distinct (map fst out) \<longrightarrow> distinct (map fst out')" by (rule 3)
    show "mset (concat (map snd out')) = mset (concat (map snd out)) + mset [idx..<idx + length (l # ls)]"
      by (rule 4)
  qed
qed

lemma positions_zero: "positions l 0 ls = filter (\<lambda>i. ls ! i = l) [0..<length ls]"
proof -
  have "zip [0..<length ls] ls = map (\<lambda>i. (i, ls ! i)) [0..<length ls]"
    by (rule nth_equalityI) auto
  then show ?thesis
    by (simp add: positions_def filter_map comp_def)
qed

text \<open>
  C9.  For every sequence of samples each carrying a usable target label (the
  target is present, a tensor target holds one element so that
  \<^verbatim>\<open>.item()\<close> returns, and the label is hashable), \<^verbatim>\<open>_labels_to_indices\<close>
  returns a mapping in which every index into the sequence occurs exactly
  once over all lists, namely in the list of the label of its sample (the
  scalar value for a tensor target), and the list of each label holds
  exactly the indices of the samples with that label, in strictly
  increasing order.
\<close>

theorem labels_to_indices_partition:
  assumes labelled:
    "\<forall>sample \<in> set data. \<exists>l. sample_label hashable is_tensor item sample = Inr l"
  shows "\<exists>out. labels_to_indices hashable is_tensor item data = Inr out
     \<and> distinct (map fst out)
     \<and> mset (concat (map snd out)) = mset [0..<length data]
     \<and> (\<forall>i<length data. \<exists>l idxs. sample_label hashable is_tensor item (data ! i) = Inr l
            \<and> map_of out l = Some idxs \<and> i \<in> set idxs)
     \<and> (\<forall>l idxs. map_of out l = Some idxs \<longrightarrow>
            idxs \<noteq> [] \<and> sorted_wrt (<) idxs
            \<and> idxs = filter (\<lambda>i. sample_label hashable is_tensor item (data ! i) = Inr l)
                        [0..<length data])"
proof -
  define ls where "ls = map (\<lambda>s. projr (sample_label hashable is_tensor item s)) data"
  have len: "length ls = length data" by (simp add: ls_def)
  have lab: "sample_label hashable is_tensor item (data ! i) = Inr (ls ! i)" if "i < length data" for i
  proof -
    from that have "data ! i \<in> set data" by simp
    with labelled obtain l where "sample_label hashable is_tensor item (data ! i) = Inr l" by blast
    with that show ?thesis by (simp add: ls_def)
  qed
  have all2: "list_all2 (\<lambda>s l. sample_label hashable is_tensor item s = Inr l) data ls"
    by (simp add: list_all2_conv_all_nth len lab)
  have "\<exists>out. labels_to_indices_loop hashable is_tensor item 0 data [] = Inr out
     \<and> (\<forall>l. map_of out l = (if l \<in> set ls then Some (positions l 0 ls) else None))
     \<and> distinct (map fst out)
     \<and> mset (concat (map snd out)) = mset [0..<length ls]"
    using labels_to_indices_loop_ok [OF all2, of 0 "[]"] by (simp cong: if_cong)
  then obtain out where ok:
    "labels_to_indices_loop hashable is_tensor item 0 data [] = Inr out
     \<and> (\<forall>l. map_of out l = (if l \<in> set ls then Some (positions l 0 ls) else None))
     \<and> distinct (map fst out)
     \<and> mset (concat (map snd out)) = mset [0..<length ls]"
    ..
  note run = ok [THEN conjunct1]
  note look0 = ok [THEN conjunct2, THEN conjunct1]
  note dist0 = ok [THEN conjunct2, THEN conjunct2, THEN conjunct1]
  note ms0 = ok [THEN conjunct2, THEN conjunct2, THEN conjunct2]
  have pos: "positions l 0 ls
             = filter (\<lambda>i. sample_label hashable is_tensor item (data ! i) = Inr l) [0..<length data]"
    for l
  proof -
    have "filter (\<lambda>i. ls ! i = l) [0..<length ls]
          = filter (\<lambda>i. sample_label hashable is_tensor item (data ! i) = Inr l) [0..<length ls]"
      by (rule filter_cong) (auto simp: lab len)
    then show ?thesis by (simp add: positions_zero len)
  qed
  have look: "map_of out l =
           (if l \<in> set ls
            then Some (filter (\<lambda>i. sample_label hashable is_tensor item (data ! i) = Inr l)
                         [0..<length data])
            else None)" for l
    using look0 [rule_format, of l] by (simp add: pos)
  have a: "labels_to_indices hashable is_tensor item data = Inr out"
    by (simp add: labels_to_indices_def run)
  have b: "distinct (map fst out)" using dist0 by simp
  have c: "mset (concat (map snd out)) = mset [0..<length data]" using ms0 by (simp add: len)
  have d: "\<exists>l idxs. sample_label hashable is_tensor item (data ! i) = Inr l
            \<and> map_of out l = Some idxs \<and> i \<in> set idxs" if "i < length data" for i
  proof (intro exI conjI)
    show "sample_label hashable is_tensor item (data ! i) = Inr (ls ! i)" by (rule lab [OF that])
    have "ls ! i \<in> set ls" using that len by simp
    then show "map_of out (ls ! i)
        = Some (filter (\<lambda>j. sample_label hashable is_tensor item (data ! j) = Inr (ls ! i))
                  [0..<length data])"
      by (simp add: look)
    show "i \<in> set (filter (\<lambda>j. sample_label hashable is_tensor item (data ! j) = Inr (ls ! i))
                  [0..<length data])"
      using that by (simp add: lab)
  qed
  have e: "idxs \<noteq> [] \<and> sorted_wrt (<) idxs
            \<and> idxs = filter (\<lambda>i. sample_label hashable is_tensor item (data ! i) = Inr l)
                        [0..<length data]" if "map_of out l = Some idxs" for l idxs
  proof -
    from that have mem: "l \<in> set ls"
      and eq: "idxs = filter (\<lambda>i. sample_label hashable is_tensor item (data ! i) = Inr l)
                        [0..<length data]"
      by (auto simp: look split: if_splits)
    from mem obtain i where i: "i < length data" "ls ! i = l"
      by (auto simp: in_set_conv_nth len)
    then have "i \<in> set idxs" by (simp add: eq lab)
    then have "idxs \<noteq> []" by auto
    moreover have "sorted_wrt (<) idxs"
      unfolding eq by (rule sorted_wrt_filter) simp
    ultimately show ?thesis using eq by simp
  qed
  have d': "\<forall>i<length data. \<exists>l idxs. sample_label hashable is_tensor item (data ! i) = Inr l
            \<and> map_of out l = Some idxs \<and> i \<in> set idxs"
    using d by blast
  have e': "\<forall>l idxs. map_of out l = Some idxs \<longrightarrow>
            idxs \<noteq> [] \<and> sorted_wrt (<) idxs
            \<and> idxs = filter (\<lambda>i. sample_label hashable is_tensor item (data ! i) = Inr l)
                        [0..<length data]"
    using e by blast
  show ?thesis
    by (rule exI [of _ out]) (intro conjI a b c d' e')
qed

theorem labels_to_indices_partition_witness:
  "sample_label (\<lambda>_. True) (\<lambda>v::int. v < 0) (\<lambda>v. Inr (- v)) [(INPUT, 5), (TARGET, 1)] = Inr 1
   \<and> sample_label (\<lambda>_. True) (\<lambda>v::int. v < 0) (\<lambda>v. Inr (- v)) [(TARGET, - 2)] = Inr 2
   \<and> sample_label (\<lambda>_. True) (\<lambda>v::int. v < 0) (\<lambda>v. Inr (- v)) [(TARGET, 2)] = Inr 2
   \<and> sample_label (\<lambda>_. True) (\<lambda>v::int. v < 0) (\<lambda>v. Inr (- v)) [(TARGET, - 1), (INPUT, 3)] = Inr 1
   \<and> labels_to_indices (\<lambda>_. True) (\<lambda>v::int. v < 0) (\<lambda>v. Inr (- v))
        [[(INPUT, 5), (TARGET, 1)], [(TARGET, - 2)], [(TARGET, 2)], [(TARGET, - 1), (INPUT, 3)]]
      = Inr [(1, [0, 3]), (2, [1, 2])]
   \<and> mset (concat (map snd [(1::int, [0, 3]), (2, [1, 2::nat])]))
      = mset [0..<length [[(INPUT, 5), (TARGET, 1)], [(TARGET, - 2)], [(TARGET, 2)],
                          [(TARGET, - 1), (INPUT, 3::int)]]]"
proof -
  let ?D = "[[(INPUT, 5), (TARGET, 1)], [(TARGET, - 2)], [(TARGET, 2)], [(TARGET, - 1), (INPUT, 3::int)]]"
  have s1: "sample_label (\<lambda>_. True) (\<lambda>v::int. v < 0) (\<lambda>v. Inr (- v)) [(INPUT, 5), (TARGET, 1)] = Inr 1"
    and s2: "sample_label (\<lambda>_. True) (\<lambda>v::int. v < 0) (\<lambda>v. Inr (- v)) [(TARGET, - 2)] = Inr 2"
    and s3: "sample_label (\<lambda>_. True) (\<lambda>v::int. v < 0) (\<lambda>v. Inr (- v)) [(TARGET, 2)] = Inr 2"
    and s4: "sample_label (\<lambda>_. True) (\<lambda>v::int. v < 0) (\<lambda>v. Inr (- v)) [(TARGET, - 1), (INPUT, 3)] = Inr 1"
    by (simp_all add: sample_label_def getitem_def)
  have h: "\<forall>sample \<in> set ?D.
      \<exists>l. sample_label (\<lambda>_. True) (\<lambda>v::int. v < 0) (\<lambda>v. Inr (- v)) sample = Inr l"
    using s1 s2 s3 s4 by simp
  have run: "labels_to_indices (\<lambda>_. True) (\<lambda>v::int. v < 0) (\<lambda>v. Inr (- v)) ?D
      = Inr [(1, [0, 3]), (2, [1, 2])]"
    by (simp add: labels_to_indices_def s1 s2 s3 s4 defaultdict_append_def)
  from labels_to_indices_partition [OF h]
  obtain out where
    "labels_to_indices (\<lambda>_. True) (\<lambda>v::int. v < 0) (\<lambda>v. Inr (- v)) ?D = Inr out
     \<and> distinct (map fst out)
     \<and> mset (concat (map snd out)) = mset [0..<length ?D]
     \<and> (\<forall>i<length ?D. \<exists>l idxs. sample_label (\<lambda>_. True) (\<lambda>v::int. v < 0) (\<lambda>v. Inr (- v)) (?D ! i) = Inr l
            \<and> map_of out l = Some idxs \<and> i \<in> set idxs)
     \<and> (\<forall>l idxs. map_of out l = Some idxs \<longrightarrow>
            idxs \<noteq> [] \<and> sorted_wrt (<) idxs
            \<and> idxs = filter (\<lambda>i. sample_label (\<lambda>_. True) (\<lambda>v::int. v < 0) (\<lambda>v. Inr (- v)) (?D ! i) = Inr l)
                        [0..<length ?D])"
    ..
  then have o: "labels_to_indices (\<lambda>_. True) (\<lambda>v::int. v < 0) (\<lambda>v. Inr (- v)) ?D = Inr out"
    and m: "mset (concat (map snd out)) = mset [0..<length ?D]"
    by (rule conjunct1, elim conjE)
  from o run have "out = [(1, [0, 3]), (2, [1, 2])]" by simp
  with m have m': "mset (concat (map snd [(1::int, [0, 3]), (2, [1, 2::nat])])) = mset [0..<length ?D]"
    by (simp only:)
  show ?thesis by (intro conjI s1 s2 s3 s4 run m')
qed


section \<open>Loading a sample: image and metadata\<close>








section \<open>Loading a sample: the frame\<close>

lemma ImageTensorInput_frame:
  "only_input_and_metadata st a (ImageTensorInput_load_sample to_pil_image st a)"
  by (auto simp: ImageTensorInput_load_sample_def getitem_def setitem_def update_conv' Let_def
           split: sum.splits option.splits prod.splits)

lemma ImageNumpyInput_frame:
  "only_input_and_metadata st a (ImageNumpyInput_load_sample from_numpy to_pil_image st a)"
  by (auto simp: ImageNumpyInput_load_sample_def getitem_def setitem_def update_conv' Let_def
           split: sum.splits option.splits prod.splits)

lemma ImageFiftyOneInput_frame:
  "only_input_and_metadata st a (ImageFiftyOneInput_load_sample image_default_loader st a)"
  by (auto simp: ImageFiftyOneInput_load_sample_def getitem_def setitem_def update_conv' Let_def
           split: sum.splits option.splits prod.splits)

lemma FastFaceInput_frame:
  "only_input_and_metadata st a (FastFaceInput_load_sample image_default_loader st a)"
  by (auto simp: FastFaceInput_load_sample_def getitem_def setitem_def update_conv' Let_def
           split: sum.splits option.splits prod.splits)

lemma ImagePathsInput_frame:
  assumes req: "\<forall>f. requires_image f = f"
    and sup: "\<forall>st' a'. only_input_and_metadata st' a' (PathsInput_load_sample st' a')"
  shows "only_input_and_metadata st a
           (ImagePathsInput_load_sample requires_image PathsInput_load_sample st a)"
proof -
  obtain res st1 where super: "PathsInput_load_sample st a = (res, st1)"
    by (cases "PathsInput_load_sample st a")
  from sup [THEN spec [of _ st], THEN spec [of _ a]] super
  have others: "\<forall>other. other \<noteq> a \<longrightarrow> st1 other = st other"
    and keys: "\<forall>k. k \<noteq> INPUT \<longrightarrow> k \<noteq> METADATA \<longrightarrow> map_of (st1 a) k = map_of (st a) k"
    and same: "\<forall>r. res = Inr r \<longrightarrow> r = a"
    by simp_all
  show ?thesis
  proof (cases res)
    case (Inl e)
    with super others keys show ?thesis
      by (simp add: ImagePathsInput_load_sample_def req)
  next
    case (Inr r)
    with same have r: "r = a" by simp
    from super Inr r others keys show ?thesis
      by (auto simp: ImagePathsInput_load_sample_def req getitem_def setitem_def update_conv'
               split: sum.splits option.splits prod.splits pyval.splits)
  qed
qed

text \<open>
  C10.  Every \<^verbatim>\<open>load_sample\<close> of the image and face-detection inputs changes,
  in the sample mapping it is given, only the input key and the metadata key,
  changes no other mapping, and returns the mapping it was given: every other
  key (the target key in particular) is bound to the same value afterwards.
  The methods written out in the sources do so whatever the libraries they
  call do.  \<^verbatim>\<open>ImagePathsInput.load_sample\<close> first calls
  \<^verbatim>\<open>PathsInput.load_sample\<close>, which is not in the sources: it keeps the frame
  when that call does and the decorator \<^verbatim>\<open>@requires("image")\<close> hands the
  method through unchanged.
\<close>

theorem load_sample_frame:
  "((\<forall>f. requires_image f = f) \<longrightarrow>
      (\<forall>st' a'. only_input_and_metadata st' a' (PathsInput_load_sample st' a')) \<longrightarrow>
      only_input_and_metadata st a
        (ImagePathsInput_load_sample requires_image PathsInput_load_sample st a))
   \<and> only_input_and_metadata st a (ImageTensorInput_load_sample to_pil_image st a)
   \<and> only_input_and_metadata st a (ImageNumpyInput_load_sample from_numpy to_pil_image st a)
   \<and> only_input_and_metadata st a (ImageFiftyOneInput_load_sample image_default_loader st a)
   \<and> only_input_and_metadata st a (FastFaceInput_load_sample image_default_loader st a)"
proof (intro conjI impI)
  assume "\<forall>f. requires_image f = f"
    and "\<forall>st' a'. only_input_and_metadata st' a' (PathsInput_load_sample st' a')"
  then have "only_input_and_metadata st a
        (ImagePathsInput_load_sample requires_image PathsInput_load_sample st a)"
    by (rule ImagePathsInput_frame)
  then show "\<forall>other. other \<noteq> a \<longrightarrow>
      snd (ImagePathsInput_load_sample requires_image PathsInput_load_sample st a) other = st other"
    and "\<forall>k. k \<noteq> INPUT \<longrightarrow> k \<noteq> METADATA \<longrightarrow>
      map_of (snd (ImagePathsInput_load_sample requires_image PathsInput_load_sample st a) a) k
        = map_of (st a) k"
    and "\<forall>r. fst (ImagePathsInput_load_sample requires_image PathsInput_load_sample st a) = Inr r
      \<longrightarrow> r = a"
    by simp_all
qed (use ImageTensorInput_frame [where st = st and a = a and to_pil_image = to_pil_image]
         ImageNumpyInput_frame [where st = st and a = a and from_numpy = from_numpy
                                  and to_pil_image = to_pil_image]
         ImageFiftyOneInput_frame [where st = st and a = a
                                     and image_default_loader = image_default_loader]
         FastFaceInput_frame [where st = st and a = a
                                and image_default_loader = image_default_loader] in simp_all)

theorem load_sample_frame_witness:
  "fst (ImagePathsInput_load_sample (\<lambda>f::(int, unit) load_sample. f) (\<lambda>st sample. (Inr sample, setitem (setitem st sample INPUT (Img \<lparr>width = 640, height = 480, pixels = ()\<rparr>)) sample METADATA (Dict [(Name ''filepath'', Str ''a.png'')]))) (\<lambda>_. [(INPUT, Str ''a.png''), (TARGET, PyInt 3)]) 0) = Inr 0
   \<and> map_of (snd (ImagePathsInput_load_sample (\<lambda>f::(int, unit) load_sample. f) (\<lambda>st sample. (Inr sample, setitem (setitem st sample INPUT (Img \<lparr>width = 640, height = 480, pixels = ()\<rparr>)) sample METADATA (Dict [(Name ''filepath'', Str ''a.png'')]))) (\<lambda>_. [(INPUT, Str ''a.png''), (TARGET, PyInt 3)]) 0) 0) TARGET = Some (PyInt 3)
   \<and> snd (ImagePathsInput_load_sample (\<lambda>f::(int, unit) load_sample. f) (\<lambda>st sample. (Inr sample, setitem (setitem st sample INPUT (Img \<lparr>width = 640, height = 480, pixels = ()\<rparr>)) sample METADATA (Dict [(Name ''filepath'', Str ''a.png'')]))) (\<lambda>_. [(INPUT, Str ''a.png''), (TARGET, PyInt 3)]) 0) 1 = [(INPUT, Str ''a.png''), (TARGET, PyInt 3)]
   \<and> fst (ImageTensorInput_load_sample (\<lambda>_::(int, unit) pyval. Inr \<lparr>width = 640, height = 480, pixels = ()\<rparr>) (\<lambda>_. [(INPUT, Str ''a.png''), (TARGET, PyInt 3)]) 0) = Inr 0
   \<and> map_of (snd (ImageTensorInput_load_sample (\<lambda>_::(int, unit) pyval. Inr \<lparr>width = 640, height = 480, pixels = ()\<rparr>) (\<lambda>_. [(INPUT, Str ''a.png''), (TARGET, PyInt 3)]) 0) 0) TARGET = Some (PyInt 3)
   \<and> snd (ImageTensorInput_load_sample (\<lambda>_::(int, unit) pyval. Inr \<lparr>width = 640, height = 480, pixels = ()\<rparr>) (\<lambda>_. [(INPUT, Str ''a.png''), (TARGET, PyInt 3)]) 0) 1 = [(INPUT, Str ''a.png''), (TARGET, PyInt 3)]
   \<and> fst (ImageNumpyInput_load_sample (\<lambda>x::(int, unit) pyval. Inr x) (\<lambda>_::(int, unit) pyval. Inr \<lparr>width = 640, height = 480, pixels = ()\<rparr>) (\<lambda>_. [(INPUT, Str ''a.png''), (TARGET, PyInt 3)]) 0) = Inr 0
   \<and> map_of (snd (ImageNumpyInput_load_sample (\<lambda>x::(int, unit) pyval. Inr x) (\<lambda>_::(int, unit) pyval. Inr \<lparr>width = 640, height = 480, pixels = ()\<rparr>) (\<lambda>_. [(INPUT, Str ''a.png''), (TARGET, PyInt 3)]) 0) 0) TARGET = Some (PyInt 3)
   \<and> snd (ImageNumpyInput_load_sample (\<lambda>x::(int, unit) pyval. Inr x) (\<lambda>_::(int, unit) pyval. Inr \<lparr>width = 640, height = 480, pixels = ()\<rparr>) (\<lambda>_. [(INPUT, Str ''a.png''), (TARGET, PyInt 3)]) 0) 1 = [(INPUT, Str ''a.png''), (TARGET, PyInt 3)]
   \<and> fst (ImageFiftyOneInput_load_sample (\<lambda>_::(int, unit) pyval. Inr \<lparr>width = 640, height = 480, pixels = ()\<rparr>) (\<lambda>_. [(INPUT, Str ''a.png''), (TARGET, PyInt 3)]) 0) = Inr 0
   \<and> map_of (snd (ImageFiftyOneInput_load_sample (\<lambda>_::(int, unit) pyval. Inr \<lparr>width = 640, height = 480, pixels = ()\<rparr>) (\<lambda>_. [(INPUT, Str ''a.png''), (TARGET, PyInt 3)]) 0) 0) TARGET = Some (PyInt 3)
   \<and> snd (ImageFiftyOneInput_load_sample (\<lambda>_::(int, unit) pyval. Inr \<lparr>width = 640, height = 480, pixels = ()\<rparr>) (\<lambda>_. [(INPUT, Str ''a.png''), (TARGET, PyInt 3)]) 0) 1 = [(INPUT, Str ''a.png''), (TARGET, PyInt 3)]
   \<and> fst (FastFaceInput_load_sample (\<lambda>_::(int, unit) pyval. Inr \<lparr>width = 640, height = 480, pixels = ()\<rparr>) (\<lambda>_. [(INPUT, Str ''a.png''), (TARGET, PyInt 3)]) 0) = Inr 0
   \<and> map_of (snd (FastFaceInput_load_sample (\<lambda>_::(int, unit) pyval. Inr \<lparr>width = 640, height = 480, pixels = ()\<rparr>) (\<lambda>_. [(INPUT, Str ''a.png''), (TARGET, PyInt 3)]) 0) 0) TARGET = Some (PyInt 3)
   \<and> snd (FastFaceInput_load_sample (\<lambda>_::(int, unit) pyval. Inr \<lparr>width = 640, height = 480, pixels = ()\<rparr>) (\<lambda>_. [(INPUT, Str ''a.png''), (TARGET, PyInt 3)]) 0) 1 = [(INPUT, Str ''a.png''), (TARGET, PyInt 3)]"
proof -
  have q: "\<forall>f. (\<lambda>f::(int, unit) load_sample. f) f = f" by simp
  have s: "\<forall>st' a'. only_input_and_metadata st' a' ((\<lambda>st sample. (Inr sample, setitem (setitem st sample INPUT (Img \<lparr>width = 640, height = 480, pixels = ()\<rparr>)) sample METADATA (Dict [(Name ''filepath'', Str ''a.png'')]))) st' a')"
    by (simp add: setitem_def update_conv')
  note fr_paths = load_sample_frame [where st = "(\<lambda>_. [(INPUT, Str ''a.png''), (TARGET, PyInt 3)])" and a = 0
        and requires_image = "(\<lambda>f::(int, unit) load_sample. f)" and PathsInput_load_sample = "(\<lambda>st sample. (Inr sample, setitem (setitem st sample INPUT (Img \<lparr>width = 640, height = 480, pixels = ()\<rparr>)) sample METADATA (Dict [(Name ''filepath'', Str ''a.png'')])))", THEN conjunct1, THEN mp, OF q, THEN mp, OF s]
  have f_paths: "fst (ImagePathsInput_load_sample (\<lambda>f::(int, unit) load_sample. f) (\<lambda>st sample. (Inr sample, setitem (setitem st sample INPUT (Img \<lparr>width = 640, height = 480, pixels = ()\<rparr>)) sample METADATA (Dict [(Name ''filepath'', Str ''a.png'')]))) (\<lambda>_. [(INPUT, Str ''a.png''), (TARGET, PyInt 3)]) 0) = Inr 0"
    by (simp add: ImagePathsInput_load_sample_def ImageTensorInput_load_sample_def ImageNumpyInput_load_sample_def ImageFiftyOneInput_load_sample_def FastFaceInput_load_sample_def getitem_def setitem_def pil_size_def Let_def)
  have t_paths: "map_of (snd (ImagePathsInput_load_sample (\<lambda>f::(int, unit) load_sample. f) (\<lambda>st sample. (Inr sample, setitem (setitem st sample INPUT (Img \<lparr>width = 640, height = 480, pixels = ()\<rparr>)) sample METADATA (Dict [(Name ''filepath'', Str ''a.png'')]))) (\<lambda>_. [(INPUT, Str ''a.png''), (TARGET, PyInt 3)]) 0) 0) TARGET = Some (PyInt 3)"
    using fr_paths [THEN conjunct2, THEN conjunct1, rule_format, of TARGET] by simp
  have o_paths: "snd (ImagePathsInput_load_sample (\<lambda>f::(int, unit) load_sample. f) (\<lambda>st sample. (Inr sample, setitem (setitem st sample INPUT (Img \<lparr>width = 640, height = 480, pixels = ()\<rparr>)) sample METADATA (Dict [(Name ''filepath'', Str ''a.png'')]))) (\<lambda>_. [(INPUT, Str ''a.png''), (TARGET, PyInt 3)]) 0) 1 = [(INPUT, Str ''a.png''), (TARGET, PyInt 3)]"
    using fr_paths [THEN conjunct1, rule_format, of 1] by simp
  note fr_tensor = load_sample_frame [where st = "(\<lambda>_. [(INPUT, Str ''a.png''), (TARGET, PyInt 3)])" and a = 0
        and to_pil_image = "(\<lambda>_::(int, unit) pyval. Inr \<lparr>width = 640, height = 480, pixels = ()\<rparr>)", THEN conjunct2, THEN conjunct1]
  have f_tensor: "fst (ImageTensorInput_load_sample (\<lambda>_::(int, unit) pyval. Inr \<lparr>width = 640, height = 480, pixels = ()\<rparr>) (\<lambda>_. [(INPUT, Str ''a.png''), (TARGET, PyInt 3)]) 0) = Inr 0"
    by (simp add: ImagePathsInput_load_sample_def ImageTensorInput_load_sample_def ImageNumpyInput_load_sample_def ImageFiftyOneInput_load_sample_def FastFaceInput_load_sample_def getitem_def setitem_def pil_size_def Let_def)
  have t_tensor: "map_of (snd (ImageTensorInput_load_sample (\<lambda>_::(int, unit) pyval. Inr \<lparr>width = 640, height = 480, pixels = ()\<rparr>) (\<lambda>_. [(INPUT, Str ''a.png''), (TARGET, PyInt 3)]) 0) 0) TARGET = Some (PyInt 3)"
    using fr_tensor [THEN conjunct2, THEN conjunct1, rule_format, of TARGET] by simp
  have o_tensor: "snd (ImageTensorInput_load_sample (\<lambda>_::(int, unit) pyval. Inr \<lparr>width = 640, height = 480, pixels = ()\<rparr>) (\<lambda>_. [(INPUT, Str ''a.png''), (TARGET, PyInt 3)]) 0) 1 = [(INPUT, Str ''a.png''), (TARGET, PyInt 3)]"
    using fr_tensor [THEN conjunct1, rule_format, of 1] by simp
  note fr_numpy = load_sample_frame [where st = "(\<lambda>_. [(INPUT, Str ''a.png''), (TARGET, PyInt 3)])" and a = 0
        and from_numpy = "(\<lambda>x::(int, unit) pyval. Inr x)" and to_pil_image = "(\<lambda>_::(int, unit) pyval. Inr \<lparr>width = 640, height = 480, pixels = ()\<rparr>)", THEN conjunct2, THEN conjunct2, THEN conjunct1]
  have f_numpy: "fst (ImageNumpyInput_load_sample (\<lambda>x::(int, unit) pyval. Inr x) (\<lambda>_::(int, unit) pyval. Inr \<lparr>width = 640, height = 480, pixels = ()\<rparr>) (\<lambda>_. [(INPUT, Str ''a.png''), (TARGET, PyInt 3)]) 0) = Inr 0"
    by (simp add: ImagePathsInput_load_sample_def ImageTensorInput_load_sample_def ImageNumpyInput_load_sample_def ImageFiftyOneInput_load_sample_def FastFaceInput_load_sample_def getitem_def setitem_def pil_size_def Let_def)
  have t_numpy: "map_of (snd (ImageNumpyInput_load_sample (\<lambda>x::(int, unit) pyval. Inr x) (\<lambda>_::(int, unit) pyval. Inr \<lparr>width = 640, height = 480, pixels = ()\<rparr>) (\<lambda>_. [(INPUT, Str ''a.png''), (TARGET, PyInt 3)]) 0) 0) TARGET = Some (PyInt 3)"
    using fr_numpy [THEN conjunct2, THEN conjunct1, rule_format, of TARGET] by simp
  have o_numpy: "snd (ImageNumpyInput_load_sample (\<lambda>x::(int, unit) pyval. Inr x) (\<lambda>_::(int, unit) pyval. Inr \<lparr>width = 640, height = 480, pixels = ()\<rparr>) (\<lambda>_. [(INPUT, Str ''a.png''), (TARGET, PyInt 3)]) 0) 1 = [(INPUT, Str ''a.png''), (TARGET, PyInt 3)]"
    using fr_numpy [THEN conjunct1, rule_format, of 1] by simp
  note fr_fiftyone = load_sample_frame [where st = "(\<lambda>_. [(INPUT, Str ''a.png''), (TARGET, PyInt 3)])" and a = 0
        and image_default_loader = "(\<lambda>_::(int, unit) pyval. Inr \<lparr>width = 640, height = 480, pixels = ()\<rparr>)", THEN conjunct2, THEN conjunct2, THEN conjunct2, THEN conjunct1]
  have f_fiftyone: "fst (ImageFiftyOneInput_load_sample (\<lambda>_::(int, unit) pyval. Inr \<lparr>width = 640, height = 480, pixels = ()\<rparr>) (\<lambda>_. [(INPUT, Str ''a.png''), (TARGET, PyInt 3)]) 0) = Inr 0"
    by (simp add: ImagePathsInput_load_sample_def ImageTensorInput_load_sample_def ImageNumpyInput_load_sample_def ImageFiftyOneInput_load_sample_def FastFaceInput_load_sample_def getitem_def setitem_def pil_size_def Let_def)
  have t_fiftyone: "map_of (snd (ImageFiftyOneInput_load_sample (\<lambda>_::(int, unit) pyval. Inr \<lparr>width = 640, height = 480, pixels = ()\<rparr>) (\<lambda>_. [(INPUT, Str ''a.png''), (TARGET, PyInt 3)]) 0) 0) TARGET = Some (PyInt 3)"
    using fr_fiftyone [THEN conjunct2, THEN conjunct1, rule_format, of TARGET] by simp
  have o_fiftyone: "snd (ImageFiftyOneInput_load_sample (\<lambda>_::(int, unit) pyval. Inr \<lparr>width = 640, height = 480, pixels = ()\<rparr>) (\<lambda>_. [(INPUT, Str ''a.png''), (TARGET, PyInt 3)]) 0) 1 = [(INPUT, Str ''a.png''), (TARGET, PyInt 3)]"
    using fr_fiftyone [THEN conjunct1, rule_format, of 1] by simp
  note fr_fastface = load_sample_frame [where st = "(\<lambda>_. [(INPUT, Str ''a.png''), (TARGET, PyInt 3)])" and a = 0
        and image_default_loader = "(\<lambda>_::(int, unit) pyval. Inr \<lparr>width = 640, height = 480, pixels = ()\<rparr>)", THEN conjunct2, THEN conjunct2, THEN conjunct2, THEN conjunct2]
  have f_fastface: "fst (FastFaceInput_load_sample (\<lambda>_::(int, unit) pyval. Inr \<lparr>width = 640, height = 480, pixels = ()\<rparr>) (\<lambda>_. [(INPUT, Str ''a.png''), (TARGET, PyInt 3)]) 0) = Inr 0"
    by (simp add: ImagePathsInput_load_sample_def ImageTensorInput_load_sample_def ImageNumpyInput_load_sample_def ImageFiftyOneInput_load_sample_def FastFaceInput_load_sample_def getitem_def setitem_def pil_size_def Let_def)
  have t_fastface: "map_of (snd (FastFaceInput_load_sample (\<lambda>_::(int, unit) pyval. Inr \<lparr>width = 640, height = 480, pixels = ()\<rparr>) (\<lambda>_. [(INPUT, Str ''a.png''), (TARGET, PyInt 3)]) 0) 0) TARGET = Some (PyInt 3)"
    using fr_fastface [THEN conjunct2, THEN conjunct1, rule_format, of TARGET] by simp
  have o_fastface: "snd (FastFaceInput_load_sample (\<lambda>_::(int, unit) pyval. Inr \<lparr>width = 640, height = 480, pixels = ()\<rparr>) (\<lambda>_. [(INPUT, Str ''a.png''), (TARGET, PyInt 3)]) 0) 1 = [(INPUT, Str ''a.png''), (TARGET, PyInt 3)]"
    using fr_fastface [THEN conjunct1, rule_format, of 1] by simp
  show ?thesis
    by (intro conjI f_paths t_paths o_paths f_tensor t_tensor o_tensor f_numpy t_numpy o_numpy f_fiftyone t_fiftyone o_fiftyone f_fastface t_fastface o_fastface)
qed


section \<open>Collating a batch for fastface\<close>

lemma row_scaled_and_translated:
  fixes row :: "'a::{times,plus} list"
  shows "length (fold (\<lambda>c r. r[c := r ! c + p1]) [1, 3]
                    (fold (\<lambda>c r. r[c := r ! c + p0]) [0, 2] (map (\<lambda>x. x * scale) row)))
         = length row"
    and "c < length row \<Longrightarrow>
         fold (\<lambda>c r. r[c := r ! c + p1]) [1, 3]
              (fold (\<lambda>c r. r[c := r ! c + p0]) [0, 2] (map (\<lambda>x. x * scale) row)) ! c
         = (if c = 0 \<or> c = 2 then row ! c * scale + p0
            else if c = 1 \<or> c = 3 then row ! c * scale + p1
            else row ! c * scale)"
  by (auto simp: nth_list_update)

lemma prepare_target_TensorRef:
  assumes "prepare_target h (TensorRef a) scale padding = (None, h')"
  shows "h' = h(a := (h a)\<lparr>rows :=
            map (\<lambda>row. fold (\<lambda>c r. r[c := r ! c + padding ! 1]) [1, 3]
                         (fold (\<lambda>c r. r[c := r ! c + padding ! 0]) [0, 2]
                            (map (\<lambda>x. x * scale) row)))
                (rows (h a))\<rparr>)"
  using assms
  by (auto simp: prepare_target_def Let_def index_def imul_def iadd_columns_def
           split: if_splits)

lemma prepare_target_ok:
  assumes "prepare_target h boxes scale padding = (None, h')"
  shows "\<exists>a. boxes = TensorRef a \<and> (\<forall>b. b \<noteq> a \<longrightarrow> h' b = h b)
           \<and> scaled_and_translated (h a) scale padding (h' a)"
proof (cases boxes)
  case (TensorRef a)
  from assms [unfolded TensorRef] have h': "h' = h(a := (h a)\<lparr>rows :=
            map (\<lambda>row. fold (\<lambda>c r. r[c := r ! c + padding ! 1]) [1, 3]
                         (fold (\<lambda>c r. r[c := r ! c + padding ! 0]) [0, 2]
                            (map (\<lambda>x. x * scale) row)))
                (rows (h a))\<rparr>)"
    by (rule prepare_target_TensorRef)
  have "scaled_and_translated (h a) scale padding (h' a)"
    unfolding h' by (simp add: row_scaled_and_translated del: fold_simps)
  moreover have "\<forall>b. b \<noteq> a \<longrightarrow> h' b = h b" unfolding h' by simp
  ultimately show ?thesis using TensorRef by blast
qed (use assms in \<open>simp_all add: prepare_target_def\<close>)

lemma prepare_targets_ok:
  assumes "prepare_targets h boxes scales paddings = (None, h')"
    and "length scales = length boxes" and "length paddings = length boxes"
  shows "\<exists>addrs. boxes = map TensorRef addrs
           \<and> (\<forall>a. a \<notin> set addrs \<longrightarrow> h' a = h a)
           \<and> (distinct addrs \<longrightarrow>
                (\<forall>i<length addrs.
                   scaled_and_translated (h (addrs ! i)) (scales ! i) (paddings ! i) (h' (addrs ! i))))"
  using assms
proof (induction boxes arbitrary: h scales paddings)
  case Nil
  then show ?case by simp
next
  case (Cons b bs)
  from Cons.prems(2,3) obtain s ss p ps where
    scales: "scales = s # ss" and paddings: "paddings = p # ps"
    and lens: "length ss = length bs" "length ps = length bs"
    by (cases scales; cases paddings) auto
  from Cons.prems(1) obtain h1 where
    first: "prepare_target h b s p = (None, h1)"
    and rest: "prepare_targets h1 bs ss ps = (None, h')"
    by (auto simp: scales paddings split: prod.splits option.splits)
  from prepare_target_ok [OF first] obtain a where
    b: "b = TensorRef a"
    and frame1: "\<forall>x. x \<noteq> a \<longrightarrow> h1 x = h x"
    and done1: "scaled_and_translated (h a) s p (h1 a)"
    by blast
  from Cons.IH [OF rest lens] obtain addrs where
    bs: "bs = map TensorRef addrs"
    and frame2: "\<forall>x. x \<notin> set addrs \<longrightarrow> h' x = h1 x"
    and done2: "distinct addrs \<longrightarrow>
                (\<forall>i<length addrs.
                   scaled_and_translated (h1 (addrs ! i)) (ss ! i) (ps ! i) (h' (addrs ! i)))"
    by blast
  have A: "b # bs = map TensorRef (a # addrs)" by (simp add: b bs)
  have B: "\<forall>x. x \<notin> set (a # addrs) \<longrightarrow> h' x = h x"
    using frame1 frame2 by simp
  have C: "scaled_and_translated (h ((a # addrs) ! i)) (scales ! i) (paddings ! i)
             (h' ((a # addrs) ! i))"
    if dist: "distinct (a # addrs)" and i: "i < length (a # addrs)" for i
  proof (cases i)
    case 0
    from dist have "a \<notin> set addrs" by simp
    with frame2 have eq: "h' a = h1 a" by blast
    from done1 show ?thesis unfolding 0 scales paddings nth_Cons_0 eq .
  next
    case (Suc j)
    with i have j: "j < length addrs" by simp
    with dist have "addrs ! j \<noteq> a" by auto
    with frame1 have same: "h1 (addrs ! j) = h (addrs ! j)" by blast
    from dist done2 j
    have "scaled_and_translated (h1 (addrs ! j)) (ss ! j) (ps ! j) (h' (addrs ! j))"
      by simp
    then show ?thesis unfolding Suc scales paddings nth_Cons_Suc same .
  qed
  have C': "distinct (a # addrs) \<longrightarrow>
                (\<forall>i<length (a # addrs).
                   scaled_and_translated (h ((a # addrs) ! i)) (scales ! i) (paddings ! i)
                     (h' ((a # addrs) ! i)))"
  proof (intro impI allI)
    fix i assume "distinct (a # addrs)" and "i < length (a # addrs)"
    then show "scaled_and_translated (h ((a # addrs) ! i)) (scales ! i) (paddings ! i)
                     (h' ((a # addrs) ! i))"
      by (rule C)
  qed
  show ?case
    by (rule exI [of _ "a # addrs"]) (intro conjI A B C')
qed

lemma column_ok: "column k samples = Inr vs \<Longrightarrow> map (\<lambda>s. map_of s k) samples = map Some vs"
  by (induction samples arbitrary: vs)
     (auto simp: getitem_def split: sum.splits option.splits)

lemma columns_ok:
  "columns ks samples = Inr cols \<Longrightarrow>
   (k \<in> set ks \<longrightarrow> (\<exists>vs. column k samples = Inr vs \<and> map_of cols k = Some vs))
   \<and> (k \<notin> set ks \<longrightarrow> map_of cols k = None)"
  by (induction ks arbitrary: cols) (auto split: sum.splits)

lemma boxes_of_ok:
  "boxes_of targets = Inr boxes \<Longrightarrow>
   map (\<lambda>t. case t of Dict d \<Rightarrow> map_of d (Name ''boxes'') | _ \<Rightarrow> None) targets = map Some boxes"
  by (induction targets arbitrary: boxes rule: boxes_of.induct)
     (auto simp: getitem_def split: sum.splits option.splits)

lemma map_of_batch:
  "map_of (map (\<lambda>(k, vs). (k, Seq vs)) cols) k = map_option Seq (map_of cols k)"
  by (induction cols) auto
lemma collate_targets_ok:
  assumes "collate_targets h cols scales paddings batch2 = (Inr batch3, h')"
  shows "(map_of cols TARGET = None \<and> batch3 = batch2 \<and> h' = h)
       \<or> (\<exists>targets boxes. map_of cols TARGET = Some targets \<and> boxes_of targets = Inr boxes
            \<and> prepare_targets h boxes scales paddings = (None, h')
            \<and> batch3 = AList.update TARGET
                          (Seq (map (\<lambda>b. Dict [(Name ''target_boxes'', b)]) boxes)) batch2)"
  using assms
  by (auto simp: collate_targets_def split: option.splits sum.splits prod.splits)

lemma fastface_collate_fn_run:
  assumes "fastface_collate_fn prepare_batch h (first # rest) = (Inr batch, h')"
  shows "\<exists>cols inputs images scales paddings batch3.
           columns (map fst first) (first # rest) = Inr cols
         \<and> map_of cols INPUT = Some inputs
         \<and> prepare_batch inputs = Inr (images, scales, paddings)
         \<and> collate_targets h cols scales paddings
              (AList.update (Name ''paddings'') (Seq (map (\<lambda>p. Seq (map Num p)) paddings))
                 (AList.update (Name ''scales'') (Seq (map Num scales))
                    (map (\<lambda>(k, vs). (k, Seq vs)) cols)))
             = (Inr batch3, h')
         \<and> batch = AList.update INPUT images batch3"
  using assms
  by (auto simp: fastface_collate_fn_def getitem_def Let_def
           split: option.splits sum.splits prod.splits)

text \<open>
  C8 (amended).  Whenever \<^verbatim>\<open>fastface_collate_fn\<close> returns for a non-empty
  batch: the samples all have an input, \<open>prepare_batch\<close> was given the list of
  these inputs, and the result binds the input key to the prepared image
  batch, \<^verbatim>\<open>"scales"\<close> and \<^verbatim>\<open>"paddings"\<close> to what \<open>prepare_batch\<close> returned, and
  every other key of the first sample (the target key aside) to the list of
  that key's values across the samples; it has no further keys.  Without a
  target key no tensor is touched.  With a target key every target is a
  mapping with an entry \<^verbatim>\<open>"boxes"\<close>, and the result binds the target key to
  the list of mappings that hold only that entry, under \<^verbatim>\<open>"target_boxes"\<close>.
  If moreover \<open>prepare_batch\<close> returned one scale and one padding per sample,
  the boxes are tensors, no other tensor is touched, and, provided no two
  samples share one tensor of boxes, each sample's boxes are afterwards the
  old ones multiplied by that sample's scale and then translated by its
  padding: \<^verbatim>\<open>padding[0]\<close> added in columns 0 and 2, \<^verbatim>\<open>padding[1]\<close> in columns 1
  and 3.
\<close>

theorem fastface_collate_fn_result:
  assumes run: "fastface_collate_fn prepare_batch h (first # rest) = (Inr batch, h')"
  shows "\<exists>inputs images scales paddings.
      map (\<lambda>s. map_of s INPUT) (first # rest) = map Some inputs
    \<and> prepare_batch inputs = Inr (images, scales, paddings)
    \<and> map_of batch INPUT = Some images
    \<and> map_of batch (Name ''scales'') = Some (Seq (map Num scales))
    \<and> map_of batch (Name ''paddings'') = Some (Seq (map (\<lambda>p. Seq (map Num p)) paddings))
    \<and> (\<forall>k. (map_of batch k \<noteq> None)
            = (map_of first k \<noteq> None \<or> k = Name ''scales'' \<or> k = Name ''paddings''))
    \<and> (\<forall>k. map_of first k \<noteq> None \<longrightarrow> k \<noteq> INPUT \<longrightarrow> k \<noteq> TARGET \<longrightarrow>
            k \<noteq> Name ''scales'' \<longrightarrow> k \<noteq> Name ''paddings'' \<longrightarrow>
            (\<exists>vs. map (\<lambda>s. map_of s k) (first # rest) = map Some vs
                 \<and> map_of batch k = Some (Seq vs)))
    \<and> (map_of first TARGET = None \<longrightarrow> h' = h)
    \<and> (map_of first TARGET \<noteq> None \<longrightarrow>
          (\<exists>boxes.
              map (\<lambda>s. case map_of s TARGET of
                          Some (Dict d) \<Rightarrow> map_of d (Name ''boxes'') | _ \<Rightarrow> None) (first # rest)
                = map Some boxes
            \<and> map_of batch TARGET
                = Some (Seq (map (\<lambda>b. Dict [(Name ''target_boxes'', b)]) boxes))
            \<and> (length scales = length (first # rest) \<longrightarrow>
               length paddings = length (first # rest) \<longrightarrow>
                 (\<exists>addrs. boxes = map TensorRef addrs
                    \<and> (\<forall>a. a \<notin> set addrs \<longrightarrow> h' a = h a)
                    \<and> (distinct addrs \<longrightarrow>
                         (\<forall>i<length addrs.
                            scaled_and_translated (h (addrs ! i)) (scales ! i) (paddings ! i)
                              (h' (addrs ! i))))))))"
proof -
  let ?samples = "first # rest"
  from fastface_collate_fn_run [OF run]
  obtain cols inputs images scales paddings batch3 where
    cols: "columns (map fst first) ?samples = Inr cols"
    and inputs: "map_of cols INPUT = Some inputs"
    and prep: "prepare_batch inputs = Inr (images, scales, paddings)"
    and targets: "collate_targets h cols scales paddings
              (AList.update (Name ''paddings'') (Seq (map (\<lambda>p. Seq (map Num p)) paddings))
                 (AList.update (Name ''scales'') (Seq (map Num scales))
                    (map (\<lambda>(k, vs). (k, Seq vs)) cols)))
             = (Inr batch3, h')"
    and batch: "batch = AList.update INPUT images batch3"
    by blast
  let ?batch2 = "AList.update (Name ''paddings'') (Seq (map (\<lambda>p. Seq (map Num p)) paddings))
                 (AList.update (Name ''scales'') (Seq (map Num scales))
                    (map (\<lambda>(k, vs). (k, Seq vs)) cols))"
  have keys: "(map_of cols k \<noteq> None) = (map_of first k \<noteq> None)" for k
  proof (cases "k \<in> set (map fst first)")
    case True
    with columns_ok [OF cols, of k] obtain vs where "map_of cols k = Some vs" by blast
    moreover from True have "map_of first k \<noteq> None" by (simp add: map_of_eq_None_iff)
    ultimately show ?thesis by (simp del: map_of_eq_None_iff)
  next
    case False
    with columns_ok [OF cols, of k] have "map_of cols k = None" by blast
    moreover from False have "map_of first k = None" by (simp add: map_of_eq_None_iff)
    ultimately show ?thesis by (simp del: map_of_eq_None_iff)
  qed
  have col: "\<exists>vs. map (\<lambda>s. map_of s k) ?samples = map Some vs \<and> map_of cols k = Some vs"
    if "map_of first k \<noteq> None" for k
  proof -
    from that have "k \<in> set (map fst first)" by (auto simp: map_of_eq_None_iff)
    with columns_ok [OF cols, of k] obtain vs where
      "column k ?samples = Inr vs" and "map_of cols k = Some vs" by blast
    with column_ok [of k ?samples vs] show ?thesis by blast
  qed
  have batch2: "map_of ?batch2 k =
      (if k = Name ''paddings'' then Some (Seq (map (\<lambda>p. Seq (map Num p)) paddings))
       else if k = Name ''scales'' then Some (Seq (map Num scales))
       else map_option Seq (map_of cols k))" for k
    by (simp add: update_conv' map_of_batch)
  from inputs have "map_of first INPUT \<noteq> None" using keys [of INPUT] by simp
  from col [OF this] inputs
  have F1: "map (\<lambda>s. map_of s INPUT) ?samples = map Some inputs" by auto
  have F3: "map_of batch INPUT = Some images" by (simp add: batch update_conv')
  from collate_targets_ok [OF targets]
  show ?thesis
  proof (elim disjE conjE exE)
    assume none: "map_of cols TARGET = None" and b3: "batch3 = ?batch2" and hh: "h' = h"
    have look: "map_of batch k =
      (if k = INPUT then Some images
       else if k = Name ''paddings'' then Some (Seq (map (\<lambda>p. Seq (map Num p)) paddings))
       else if k = Name ''scales'' then Some (Seq (map Num scales))
       else map_option Seq (map_of cols k))" for k
      unfolding batch b3 by (simp add: update_conv' map_of_batch del: map_of_eq_None_iff)
    from none have noT: "map_of first TARGET = None" using keys [of TARGET] by simp
    have F4: "map_of batch (Name ''scales'') = Some (Seq (map Num scales))"
      and F5: "map_of batch (Name ''paddings'') = Some (Seq (map (\<lambda>p. Seq (map Num p)) paddings))"
      by (simp_all add: look)
    have F6: "\<forall>k. (map_of batch k \<noteq> None)
            = (map_of first k \<noteq> None \<or> k = Name ''scales'' \<or> k = Name ''paddings'')"
      using keys \<open>map_of first INPUT \<noteq> None\<close> by (auto simp: look)
    have F7: "\<forall>k. map_of first k \<noteq> None \<longrightarrow> k \<noteq> INPUT \<longrightarrow> k \<noteq> TARGET \<longrightarrow>
            k \<noteq> Name ''scales'' \<longrightarrow> k \<noteq> Name ''paddings'' \<longrightarrow>
            (\<exists>vs. map (\<lambda>s. map_of s k) ?samples = map Some vs
                 \<and> map_of batch k = Some (Seq vs))"
    proof (intro allI impI)
      fix k assume "map_of first k \<noteq> None" "k \<noteq> INPUT" "k \<noteq> TARGET"
        "k \<noteq> Name ''scales''" "k \<noteq> Name ''paddings''"
      with col [of k] show "\<exists>vs. map (\<lambda>s. map_of s k) ?samples = map Some vs
                 \<and> map_of batch k = Some (Seq vs)"
        by (auto simp: look)
    qed
    have F8: "map_of first TARGET = None \<longrightarrow> h' = h" using hh by simp
    have F9: "map_of first TARGET \<noteq> None \<longrightarrow>
          (\<exists>boxes.
              map (\<lambda>s. case map_of s TARGET of
                          Some (Dict d) \<Rightarrow> map_of d (Name ''boxes'') | _ \<Rightarrow> None) ?samples
                = map Some boxes
            \<and> map_of batch TARGET
                = Some (Seq (map (\<lambda>b. Dict [(Name ''target_boxes'', b)]) boxes))
            \<and> (length scales = length ?samples \<longrightarrow>
               length paddings = length ?samples \<longrightarrow>
                 (\<exists>addrs. boxes = map TensorRef addrs
                    \<and> (\<forall>a. a \<notin> set addrs \<longrightarrow> h' a = h a)
                    \<and> (distinct addrs \<longrightarrow>
                         (\<forall>i<length addrs.
                            scaled_and_translated (h (addrs ! i)) (scales ! i) (paddings ! i)
                              (h' (addrs ! i)))))))"
      using noT by blast
    show ?thesis
      apply (rule exI [of _ inputs])
      apply (rule exI [of _ images])
      apply (rule exI [of _ scales])
      apply (rule exI [of _ paddings])
      apply (intro conjI F1 prep F3 F4 F5 F6 F7 F8 F9)
      done
  next
    fix targets boxes
    assume some: "map_of cols TARGET = Some targets"
      and boxes: "boxes_of targets = Inr boxes"
      and loop: "prepare_targets h boxes scales paddings = (None, h')"
      and b3: "batch3 = AList.update TARGET
                          (Seq (map (\<lambda>b. Dict [(Name ''target_boxes'', b)]) boxes)) ?batch2"
    have look: "map_of batch k =
      (if k = INPUT then Some images
       else if k = TARGET then Some (Seq (map (\<lambda>b. Dict [(Name ''target_boxes'', b)]) boxes))
       else if k = Name ''paddings'' then Some (Seq (map (\<lambda>p. Seq (map Num p)) paddings))
       else if k = Name ''scales'' then Some (Seq (map Num scales))
       else map_option Seq (map_of cols k))" for k
      unfolding batch b3 by (simp add: update_conv' map_of_batch del: map_of_eq_None_iff)
    from some have hasT: "map_of first TARGET \<noteq> None" using keys [of TARGET] by simp
    have F4: "map_of batch (Name ''scales'') = Some (Seq (map Num scales))"
      and F5: "map_of batch (Name ''paddings'') = Some (Seq (map (\<lambda>p. Seq (map Num p)) paddings))"
      by (simp_all add: look)
    have F6: "\<forall>k. (map_of batch k \<noteq> None)
            = (map_of first k \<noteq> None \<or> k = Name ''scales'' \<or> k = Name ''paddings'')"
      using keys \<open>map_of first INPUT \<noteq> None\<close> hasT by (auto simp: look)
    have F7: "\<forall>k. map_of first k \<noteq> None \<longrightarrow> k \<noteq> INPUT \<longrightarrow> k \<noteq> TARGET \<longrightarrow>
            k \<noteq> Name ''scales'' \<longrightarrow> k \<noteq> Name ''paddings'' \<longrightarrow>
            (\<exists>vs. map (\<lambda>s. map_of s k) ?samples = map Some vs
                 \<and> map_of batch k = Some (Seq vs))"
    proof (intro allI impI)
      fix k assume "map_of first k \<noteq> None" "k \<noteq> INPUT" "k \<noteq> TARGET"
        "k \<noteq> Name ''scales''" "k \<noteq> Name ''paddings''"
      with col [of k] show "\<exists>vs. map (\<lambda>s. map_of s k) ?samples = map Some vs
                 \<and> map_of batch k = Some (Seq vs)"
        by (auto simp: look)
    qed
    have F8: "map_of first TARGET = None \<longrightarrow> h' = h" using hasT by blast
    from col [OF hasT] some
    have tg: "map (\<lambda>s. map_of s TARGET) ?samples = map Some targets" by auto
    have bx: "map (\<lambda>t. case t of Dict d \<Rightarrow> map_of d (Name ''boxes'') | _ \<Rightarrow> None) targets
              = map Some boxes"
      by (rule boxes_of_ok [OF boxes])
    have "map (\<lambda>s. case map_of s TARGET of
                          Some (Dict d) \<Rightarrow> map_of d (Name ''boxes'') | _ \<Rightarrow> None) ?samples
          = map (\<lambda>v. case v of Some (Dict d) \<Rightarrow> map_of d (Name ''boxes'') | _ \<Rightarrow> None)
              (map (\<lambda>s. map_of s TARGET) ?samples)"
      by (simp add: comp_def)
    also have "\<dots> = map (\<lambda>t. case t of Dict d \<Rightarrow> map_of d (Name ''boxes'') | _ \<Rightarrow> None) targets"
      unfolding tg by (simp add: comp_def)
    finally have G1: "map (\<lambda>s. case map_of s TARGET of
                          Some (Dict d) \<Rightarrow> map_of d (Name ''boxes'') | _ \<Rightarrow> None) ?samples
                = map Some boxes"
      using bx by simp
    have G2: "map_of batch TARGET
                = Some (Seq (map (\<lambda>b. Dict [(Name ''target_boxes'', b)]) boxes))"
      by (simp add: look)
    from G1 have len: "length boxes = length ?samples"
      by (metis length_map)
    have G3: "length scales = length ?samples \<longrightarrow>
               length paddings = length ?samples \<longrightarrow>
                 (\<exists>addrs. boxes = map TensorRef addrs
                    \<and> (\<forall>a. a \<notin> set addrs \<longrightarrow> h' a = h a)
                    \<and> (distinct addrs \<longrightarrow>
                         (\<forall>i<length addrs.
                            scaled_and_translated (h (addrs ! i)) (scales ! i) (paddings ! i)
                              (h' (addrs ! i)))))"
    proof (intro impI)
      assume "length scales = length ?samples" and "length paddings = length ?samples"
      with len have "length scales = length boxes" and "length paddings = length boxes"
        by simp_all
      with loop show "\<exists>addrs. boxes = map TensorRef addrs
                    \<and> (\<forall>a. a \<notin> set addrs \<longrightarrow> h' a = h a)
                    \<and> (distinct addrs \<longrightarrow>
                         (\<forall>i<length addrs.
                            scaled_and_translated (h (addrs ! i)) (scales ! i) (paddings ! i)
                              (h' (addrs ! i))))"
        by (rule prepare_targets_ok)
    qed
    have F9: "map_of first TARGET \<noteq> None \<longrightarrow>
          (\<exists>boxes.
              map (\<lambda>s. case map_of s TARGET of
                          Some (Dict d) \<Rightarrow> map_of d (Name ''boxes'') | _ \<Rightarrow> None) ?samples
                = map Some boxes
            \<and> map_of batch TARGET
                = Some (Seq (map (\<lambda>b. Dict [(Name ''target_boxes'', b)]) boxes))
            \<and> (length scales = length ?samples \<longrightarrow>
               length paddings = length ?samples \<longrightarrow>
                 (\<exists>addrs. boxes = map TensorRef addrs
                    \<and> (\<forall>a. a \<notin> set addrs \<longrightarrow> h' a = h a)
                    \<and> (distinct addrs \<longrightarrow>
                         (\<forall>i<length addrs.
                            scaled_and_translated (h (addrs ! i)) (scales ! i) (paddings ! i)
                              (h' (addrs ! i)))))))"
      by (rule impI, rule exI [of _ boxes]) (intro conjI G1 G2 G3)
    show ?thesis
      apply (rule exI [of _ inputs])
      apply (rule exI [of _ images])
      apply (rule exI [of _ scales])
      apply (rule exI [of _ paddings])
      apply (intro conjI F1 prep F3 F4 F5 F6 F7 F8 F9)
      done
  qed
qed

theorem fastface_collate_fn_result_witness:
  "fst (fastface_collate_fn (\<lambda>xs. Inr (Obj (), [2, 3], [[10, 20], [100, 200]]))
         (\<lambda>a. \<lparr>ncols = 4, rows = [[1, 2, 3, 4 :: int]]\<rparr>)
         [[(INPUT, Str ''a.png''),
           (TARGET, Dict [(Name ''boxes'', TensorRef 0), (Name ''labels'', PyInt 1)]),
           (METADATA, Str ''m0'')],
          [(INPUT, Str ''b.png''),
           (TARGET, Dict [(Name ''boxes'', TensorRef 1), (Name ''labels'', PyInt 1)]),
           (METADATA, Str ''m1'')]])
     = Inr [(INPUT, Obj ()),
            (TARGET, Seq [Dict [(Name ''target_boxes'', TensorRef 0)],
                          Dict [(Name ''target_boxes'', TensorRef 1)]]),
            (METADATA, Seq [Str ''m0'', Str ''m1'']),
            (Name ''scales'', Seq [Num 2, Num 3]),
            (Name ''paddings'', Seq [Seq [Num 10, Num 20], Seq [Num 100, Num 200]])]
   \<and> map (\<lambda>c. rows (snd (fastface_collate_fn (\<lambda>xs. Inr (Obj (), [2, 3], [[10, 20], [100, 200]]))
         (\<lambda>a. \<lparr>ncols = 4, rows = [[1, 2, 3, 4 :: int]]\<rparr>)
         [[(INPUT, Str ''a.png''),
           (TARGET, Dict [(Name ''boxes'', TensorRef 0), (Name ''labels'', PyInt 1)]),
           (METADATA, Str ''m0'')],
          [(INPUT, Str ''b.png''),
           (TARGET, Dict [(Name ''boxes'', TensorRef 1), (Name ''labels'', PyInt 1)]),
           (METADATA, Str ''m1'')]]) 0) ! 0 ! c) [0, 1, 2, 3]
     = [12, 24, 16, 28]
   \<and> map (\<lambda>c. rows (snd (fastface_collate_fn (\<lambda>xs. Inr (Obj (), [2, 3], [[10, 20], [100, 200]]))
         (\<lambda>a. \<lparr>ncols = 4, rows = [[1, 2, 3, 4 :: int]]\<rparr>)
         [[(INPUT, Str ''a.png''),
           (TARGET, Dict [(Name ''boxes'', TensorRef 0), (Name ''labels'', PyInt 1)]),
           (METADATA, Str ''m0'')],
          [(INPUT, Str ''b.png''),
           (TARGET, Dict [(Name ''boxes'', TensorRef 1), (Name ''labels'', PyInt 1)]),
           (METADATA, Str ''m1'')]]) 1) ! 0 ! c) [0, 1, 2, 3]
     = [103, 206, 109, 212]
   \<and> snd (fastface_collate_fn (\<lambda>xs. Inr (Obj (), [2, 3], [[10, 20], [100, 200]]))
         (\<lambda>a. \<lparr>ncols = 4, rows = [[1, 2, 3, 4 :: int]]\<rparr>)
         [[(INPUT, Str ''a.png''),
           (TARGET, Dict [(Name ''boxes'', TensorRef 0), (Name ''labels'', PyInt 1)]),
           (METADATA, Str ''m0'')],
          [(INPUT, Str ''b.png''),
           (TARGET, Dict [(Name ''boxes'', TensorRef 1), (Name ''labels'', PyInt 1)]),
           (METADATA, Str ''m1'')]]) 2
     = \<lparr>ncols = 4, rows = [[1, 2, 3, 4]]\<rparr>"
proof -
  let ?P = "\<lambda>xs :: (int, unit) pyval list.
              Inr (Obj (), [2, 3], [[10, 20], [100, 200]])
                :: pyerr + (int, unit) pyval \<times> int list \<times> int list list"
  let ?h = "\<lambda>a :: nat. \<lparr>ncols = 4, rows = [[1, 2, 3, 4 :: int]]\<rparr>"
  let ?first = "[(INPUT, Str ''a.png''),
           (TARGET, Dict [(Name ''boxes'', TensorRef 0), (Name ''labels'', PyInt 1)]),
           (METADATA, Str ''m0'')] :: (key \<times> (int, unit) pyval) list"
  let ?rest = "[[(INPUT, Str ''b.png''),
           (TARGET, Dict [(Name ''boxes'', TensorRef 1), (Name ''labels'', PyInt 1)]),
           (METADATA, Str ''m1'')]] :: (key \<times> (int, unit) pyval) list list"
  let ?B = "[(INPUT, Obj ()),
            (TARGET, Seq [Dict [(Name ''target_boxes'', TensorRef 0)],
                          Dict [(Name ''target_boxes'', TensorRef 1)]]),
            (METADATA, Seq [Str ''m0'', Str ''m1'']),
            (Name ''scales'', Seq [Num 2, Num 3]),
            (Name ''paddings'', Seq [Seq [Num 10, Num 20], Seq [Num 100, Num 200]])]
            :: (key \<times> (int, unit) pyval) list"
  let ?run = "fastface_collate_fn ?P ?h (?first # ?rest)"
  have a: "fst ?run = Inr ?B"
    by (simp add: fastface_collate_fn_def collate_targets_def getitem_def prepare_target_def
          imul_def iadd_columns_def index_def Let_def)
  then have run: "?run = (Inr ?B, snd ?run)"
    by (metis prod.collapse)
  from fastface_collate_fn_result [OF run]
  have "map (\<lambda>c. rows (snd ?run 0) ! 0 ! c) [0, 1, 2, 3] = [12, 24, 16, 28]
      \<and> map (\<lambda>c. rows (snd ?run 1) ! 0 ! c) [0, 1, 2, 3] = [103, 206, 109, 212]
      \<and> snd ?run 2 = \<lparr>ncols = 4, rows = [[1, 2, 3, 4]]\<rparr>"
  proof (elim exE conjE)
    fix inputs images scales paddings
    assume prep: "?P inputs = Inr (images, scales, paddings)"
      and tgt: "map_of ?first TARGET \<noteq> None \<longrightarrow>
          (\<exists>boxes.
              map (\<lambda>s. case map_of s TARGET of
                          Some (Dict d) \<Rightarrow> map_of d (Name ''boxes'') | _ \<Rightarrow> None) (?first # ?rest)
                = map Some boxes
            \<and> map_of ?B TARGET
                = Some (Seq (map (\<lambda>b. Dict [(Name ''target_boxes'', b)]) boxes))
            \<and> (length scales = length (?first # ?rest) \<longrightarrow>
               length paddings = length (?first # ?rest) \<longrightarrow>
                 (\<exists>addrs. boxes = map TensorRef addrs
                    \<and> (\<forall>a. a \<notin> set addrs \<longrightarrow> snd ?run a = ?h a)
                    \<and> (distinct addrs \<longrightarrow>
                         (\<forall>i<length addrs.
                            scaled_and_translated (?h (addrs ! i)) (scales ! i) (paddings ! i)
                              (snd ?run (addrs ! i)))))))"
    from prep have sc: "scales = [2, 3]" and pd: "paddings = [[10, 20], [100, 200]]"
      by simp_all
    have "map_of ?first TARGET \<noteq> None" by simp
    with tgt obtain boxes where
      bx: "map (\<lambda>s. case map_of s TARGET of
                          Some (Dict d) \<Rightarrow> map_of d (Name ''boxes'') | _ \<Rightarrow> None) (?first # ?rest)
                = map Some boxes"
      and more: "length scales = length (?first # ?rest) \<longrightarrow>
               length paddings = length (?first # ?rest) \<longrightarrow>
                 (\<exists>addrs. boxes = map TensorRef addrs
                    \<and> (\<forall>a. a \<notin> set addrs \<longrightarrow> snd ?run a = ?h a)
                    \<and> (distinct addrs \<longrightarrow>
                         (\<forall>i<length addrs.
                            scaled_and_translated (?h (addrs ! i)) (scales ! i) (paddings ! i)
                              (snd ?run (addrs ! i)))))"
      by blast
    have "length scales = length (?first # ?rest)" "length paddings = length (?first # ?rest)"
      by (simp_all add: sc pd)
    with more obtain addrs where
      addrs: "boxes = map TensorRef addrs"
      and frame: "\<forall>a. a \<notin> set addrs \<longrightarrow> snd ?run a = ?h a"
      and upd: "distinct addrs \<longrightarrow>
                         (\<forall>i<length addrs.
                            scaled_and_translated (?h (addrs ! i)) (scales ! i) (paddings ! i)
                              (snd ?run (addrs ! i)))"
      by blast
    from bx have "boxes = [TensorRef 0, TensorRef 1]"
      by (auto simp: Cons_eq_map_conv)
    with addrs have addrs_eq: "addrs = [0, 1]"
      by (auto simp: Cons_eq_map_conv)
    from frame have d: "snd ?run 2 = ?h 2" unfolding addrs_eq by simp
    from upd
    have both: "scaled_and_translated (?h 0) 2 [10, 20] (snd ?run 0)
              \<and> scaled_and_translated (?h 1) 3 [100, 200] (snd ?run 1)"
      unfolding addrs_eq sc pd
      apply (simp only: distinct.simps list.set length_Cons list.size All_less_Suc
               nth_Cons_0 nth_Cons_Suc)
      apply (drule mp)
       apply simp
      apply (elim conjE)
      apply (intro conjI)
           apply assumption+
      done
    note u0 = both [THEN conjunct1] and u1 = both [THEN conjunct2]
    from u0 have b: "map (\<lambda>c. rows (snd ?run 0) ! 0 ! c) [0, 1, 2, 3] = [12, 24, 16, 28]"
      by (simp add: All_less_Suc numeral_2_eq_2 numeral_3_eq_3)
    from u1 have c: "map (\<lambda>c. rows (snd ?run 1) ! 0 ! c) [0, 1, 2, 3] = [103, 206, 109, 212]"
      by (simp add: All_less_Suc numeral_2_eq_2 numeral_3_eq_3)
    from b c d
    show "map (\<lambda>c. rows (snd ?run 0) ! 0 ! c) [0, 1, 2, 3] = [12, 24, 16, 28]
      \<and> map (\<lambda>c. rows (snd ?run 1) ! 0 ! c) [0, 1, 2, 3] = [103, 206, 109, 212]
      \<and> snd ?run 2 = \<lparr>ncols = 4, rows = [[1, 2, 3, 4]]\<rparr>"
      by (intro conjI)
  qed
  with a show ?thesis by (intro conjI) (elim conjE, assumption)+
qed

text \<open>
  The claim as it was worded, for every non-empty batch, fails when two
  samples hold the same tensor of boxes, because the updates are made in
  place.  Here both samples hold the tensor at address 0, with the one box
  \<open>[1, 2, 3, 4]\<close>; the scales are 2 and 3, the paddings \<open>[10, 20]\<close> and
  \<open>[100, 200]\<close>.  The function returns, and both targets then hold the box
  \<open>[136, 272, 148, 284]\<close>: neither the first sample's boxes scaled by 2 and
  translated by \<open>[10, 20]\<close>, which is \<open>[12, 24, 16, 28]\<close>, nor the second
  sample's scaled by 3 and translated by \<open>[100, 200]\<close>, which is
  \<open>[103, 206, 109, 212]\<close>.
\<close>

theorem fastface_collate_fn_shared_boxes:
  "fst (fastface_collate_fn (\<lambda>xs. Inr (Obj (), [2, 3], [[10, 20], [100, 200]]))
         (\<lambda>a. \<lparr>ncols = 4, rows = [[1, 2, 3, 4 :: int]]\<rparr>)
         [[(INPUT, Str ''a.png''), (TARGET, Dict [(Name ''boxes'', TensorRef 0)])],
          [(INPUT, Str ''b.png''), (TARGET, Dict [(Name ''boxes'', TensorRef 0)])]])
     = Inr [(INPUT, Obj ()),
            (TARGET, Seq [Dict [(Name ''target_boxes'', TensorRef 0)],
                          Dict [(Name ''target_boxes'', TensorRef 0)]]),
            (Name ''scales'', Seq [Num 2, Num 3]),
            (Name ''paddings'', Seq [Seq [Num 10, Num 20], Seq [Num 100, Num 200]])]
   \<and> snd (fastface_collate_fn (\<lambda>xs. Inr (Obj (), [2, 3], [[10, 20], [100, 200]]))
         (\<lambda>a. \<lparr>ncols = 4, rows = [[1, 2, 3, 4 :: int]]\<rparr>)
         [[(INPUT, Str ''a.png''), (TARGET, Dict [(Name ''boxes'', TensorRef 0)])],
          [(INPUT, Str ''b.png''), (TARGET, Dict [(Name ''boxes'', TensorRef 0)])]]) 0
     = \<lparr>ncols = 4, rows = [[136, 272, 148, 284]]\<rparr>
   \<and> \<not> scaled_and_translated \<lparr>ncols = 4, rows = [[1, 2, 3, 4 :: int]]\<rparr> 2 [10, 20]
         (snd (fastface_collate_fn (\<lambda>xs. Inr (Obj (), [2, 3], [[10, 20], [100, 200]]))
           (\<lambda>a. \<lparr>ncols = 4, rows = [[1, 2, 3, 4 :: int]]\<rparr>)
           [[(INPUT, Str ''a.png''), (TARGET, Dict [(Name ''boxes'', TensorRef 0)])],
            [(INPUT, Str ''b.png''), (TARGET, Dict [(Name ''boxes'', TensorRef 0)])]]) 0)
   \<and> \<not> scaled_and_translated \<lparr>ncols = 4, rows = [[1, 2, 3, 4 :: int]]\<rparr> 3 [100, 200]
         (snd (fastface_collate_fn (\<lambda>xs. Inr (Obj (), [2, 3], [[10, 20], [100, 200]]))
           (\<lambda>a. \<lparr>ncols = 4, rows = [[1, 2, 3, 4 :: int]]\<rparr>)
           [[(INPUT, Str ''a.png''), (TARGET, Dict [(Name ''boxes'', TensorRef 0)])],
            [(INPUT, Str ''b.png''), (TARGET, Dict [(Name ''boxes'', TensorRef 0)])]]) 0)"
proof -
  let ?run = "fastface_collate_fn
         (\<lambda>xs :: (int, unit) pyval list. Inr (Obj (), [2, 3], [[10, 20], [100, 200]]))
         (\<lambda>a. \<lparr>ncols = 4, rows = [[1, 2, 3, 4 :: int]]\<rparr>)
         [[(INPUT, Str ''a.png''), (TARGET, Dict [(Name ''boxes'', TensorRef 0)])],
          [(INPUT, Str ''b.png''), (TARGET, Dict [(Name ''boxes'', TensorRef 0)])]]"
  have a: "fst ?run
     = Inr [(INPUT, Obj ()),
            (TARGET, Seq [Dict [(Name ''target_boxes'', TensorRef 0)],
                          Dict [(Name ''target_boxes'', TensorRef 0)]]),
            (Name ''scales'', Seq [Num 2, Num 3]),
            (Name ''paddings'', Seq [Seq [Num 10, Num 20], Seq [Num 100, Num 200]])]"
    by (simp add: fastface_collate_fn_def collate_targets_def getitem_def prepare_target_def
          imul_def iadd_columns_def index_def Let_def)
  have b: "snd ?run 0 = \<lparr>ncols = 4, rows = [[136, 272, 148, 284]]\<rparr>"
    by (simp add: fastface_collate_fn_def collate_targets_def getitem_def prepare_target_def
          imul_def iadd_columns_def index_def Let_def)
  have c: "\<not> scaled_and_translated \<lparr>ncols = 4, rows = [[1, 2, 3, 4 :: int]]\<rparr> 2 [10, 20]
               (snd ?run 0)"
    unfolding b by (simp add: All_less_Suc)
  have d: "\<not> scaled_and_translated \<lparr>ncols = 4, rows = [[1, 2, 3, 4 :: int]]\<rparr> 3 [100, 200]
               (snd ?run 0)"
    unfolding b by (simp add: All_less_Suc)
  show ?thesis by (intro conjI a b c d)
qed


section \<open>Loading an image file by extension\<close>

lemma sublist_py_join: "x \<in> set xs \<Longrightarrow> sublist x (py_join sep xs)"
proof (induction sep xs rule: py_join.induct)
  case (1 sep)
  then show ?case by simp
next
  case (2 sep x')
  then show ?case by simp
next
  case (3 sep x' y ys)
  show ?case
  proof (cases "x = x'")
    case True
    then show ?thesis by (simp add: sublist_appendI)
  next
    case False
    with 3 have "sublist x (py_join sep (y # ys))" by simp
    then have "sublist x ((x' @ sep) @ py_join sep (y # ys))"
      by (rule sublist_order.order.trans) (rule suffix_imp_sublist, rule suffix_appendI, simp)
    then show ?thesis by simp
  qed
qed

lemma sublist_py_repr_list:
  assumes "ext \<in> set exts"
  shows "sublist (py_repr_str ext) (py_repr_list exts)"
proof -
  from assms have "sublist (py_repr_str ext) (py_join '', '' (map py_repr_str exts))"
    by (intro sublist_py_join) simp
  then obtain ps ss where "py_join '', '' (map py_repr_str exts) = ps @ py_repr_str ext @ ss"
    by (auto simp: sublist_def)
  then have "py_repr_list exts = (''['' @ ps) @ py_repr_str ext @ (ss @ '']'')"
    by (simp add: py_repr_list_def)
  then show ?thesis unfolding sublist_def by blast
qed

lemma message_names_file: "sublist filepath (unsupported_extension_message filepath)"
proof -
  have "unsupported_extension_message filepath =
        ''File: '' @ filepath @ ('' has an unsupported extension. Supported extensions: ''
          @ py_repr_list (IMG_EXTENSIONS @ NP_EXTENSIONS) @ ''.'')"
    by (simp add: unsupported_extension_message_def)
  then show ?thesis unfolding sublist_def by blast
qed

lemma message_lists_extension:
  assumes "ext \<in> set (IMG_EXTENSIONS @ NP_EXTENSIONS)"
  shows "sublist (py_repr_str ext) (unsupported_extension_message filepath)"
proof -
  from sublist_py_repr_list [OF assms]
  obtain ps ss where "py_repr_list (IMG_EXTENSIONS @ NP_EXTENSIONS) = ps @ py_repr_str ext @ ss"
    by (auto simp: sublist_def)
  then have "unsupported_extension_message filepath =
      (''File: '' @ filepath @ '' has an unsupported extension. Supported extensions: '' @ ps)
        @ py_repr_str ext @ (ss @ ''.'')"
    by (simp add: unsupported_extension_message_def)
  then show ?thesis unfolding sublist_def by blast
qed

text \<open>
  C2 (amended).  If \<^verbatim>\<open>has_file_allowed_extension\<close> accepts the file for
  neither \<^verbatim>\<open>IMG_EXTENSIONS\<close> nor \<^verbatim>\<open>NP_EXTENSIONS\<close>, \<^verbatim>\<open>image_loader(filepath)\<close>
  raises a \<^verbatim>\<open>ValueError\<close> whose message names the file and lists every
  supported extension.  A file accepted for \<^verbatim>\<open>IMG_EXTENSIONS\<close> goes through
  the default image loader, any other file accepted for \<^verbatim>\<open>NP_EXTENSIONS\<close>
  through \<^verbatim>\<open>np.load\<close>, \<^verbatim>\<open>astype("uint8")\<close> and \<^verbatim>\<open>Image.fromarray(_, "RGB")\<close>:
  what these calls return is returned, and what they raise is raised, of
  whatever type.  So for a supported extension an image is returned when the
  calls of the selected chain return, and an exception that \<^verbatim>\<open>image_loader\<close>
  raises is the one that the first failing call of the chain raised; the
  \<^verbatim>\<open>ValueError\<close> of \<^verbatim>\<open>image_loader\<close> itself is raised for an unsupported
  extension only.
\<close>

theorem image_loader_extension:
  fixes image_default_loader :: "string \<Rightarrow> pyerr + 'img"
    and np_load :: "string \<Rightarrow> pyerr + 'arr"
  shows
  "(\<not> hfae filepath IMG_EXTENSIONS \<and> \<not> hfae filepath NP_EXTENSIONS \<longrightarrow>
        image_loader hfae image_default_loader np_load astype fromarray filepath
          = Inl (ValueError (unsupported_extension_message filepath))
      \<and> sublist filepath (unsupported_extension_message filepath)
      \<and> (\<forall>ext \<in> set (IMG_EXTENSIONS @ NP_EXTENSIONS).
            sublist (py_repr_str ext) (unsupported_extension_message filepath)))
   \<and> (hfae filepath IMG_EXTENSIONS \<longrightarrow>
        image_loader hfae image_default_loader np_load astype fromarray filepath
          = image_default_loader filepath)
   \<and> (\<not> hfae filepath IMG_EXTENSIONS \<longrightarrow> hfae filepath NP_EXTENSIONS \<longrightarrow>
        image_loader hfae image_default_loader np_load astype fromarray filepath
          = (case np_load filepath of
               Inl e \<Rightarrow> Inl e
             | Inr arr \<Rightarrow>
                 (case astype arr ''uint8'' of
                    Inl e \<Rightarrow> Inl e
                  | Inr uint8_arr \<Rightarrow> fromarray uint8_arr ''RGB'')))
   \<and> (hfae filepath IMG_EXTENSIONS \<longrightarrow> image_default_loader filepath = Inr img \<longrightarrow>
        image_loader hfae image_default_loader np_load astype fromarray filepath = Inr img)
   \<and> (\<not> hfae filepath IMG_EXTENSIONS \<longrightarrow> hfae filepath NP_EXTENSIONS \<longrightarrow>
        np_load filepath = Inr arr \<longrightarrow> astype arr ''uint8'' = Inr uint8_arr \<longrightarrow>
        fromarray uint8_arr ''RGB'' = Inr img \<longrightarrow>
        image_loader hfae image_default_loader np_load astype fromarray filepath = Inr img)
   \<and> (hfae filepath IMG_EXTENSIONS \<or> hfae filepath NP_EXTENSIONS \<longrightarrow>
        image_loader hfae image_default_loader np_load astype fromarray filepath = Inl e \<longrightarrow>
          (hfae filepath IMG_EXTENSIONS \<and> image_default_loader filepath = Inl e)
        \<or> (\<not> hfae filepath IMG_EXTENSIONS \<and>
             (np_load filepath = Inl e
              \<or> (\<exists>arr. np_load filepath = Inr arr \<and>
                    (astype arr ''uint8'' = Inl e
                     \<or> (\<exists>uint8_arr. astype arr ''uint8'' = Inr uint8_arr
                           \<and> fromarray uint8_arr ''RGB'' = Inl e))))))
   \<and> (image_default_loader filepath \<noteq> Inl e \<longrightarrow> np_load filepath \<noteq> Inl e \<longrightarrow>
      (\<forall>arr. astype arr ''uint8'' \<noteq> Inl e) \<longrightarrow> (\<forall>uint8_arr. fromarray uint8_arr ''RGB'' \<noteq> Inl e) \<longrightarrow>
        (image_loader hfae image_default_loader np_load astype fromarray filepath = Inl e
           \<longleftrightarrow> \<not> hfae filepath IMG_EXTENSIONS \<and> \<not> hfae filepath NP_EXTENSIONS
               \<and> e = ValueError (unsupported_extension_message filepath)))"
proof (intro conjI impI)
  assume "\<not> hfae filepath IMG_EXTENSIONS \<and> \<not> hfae filepath NP_EXTENSIONS"
  then show "image_loader hfae image_default_loader np_load astype fromarray filepath
          = Inl (ValueError (unsupported_extension_message filepath))"
    by (simp add: image_loader_def)
next
  show "sublist filepath (unsupported_extension_message filepath)"
    by (rule message_names_file)
next
  show "\<forall>ext \<in> set (IMG_EXTENSIONS @ NP_EXTENSIONS).
            sublist (py_repr_str ext) (unsupported_extension_message filepath)"
    by (blast intro: message_lists_extension)
next
  assume "hfae filepath IMG_EXTENSIONS \<or> hfae filepath NP_EXTENSIONS"
    and "image_loader hfae image_default_loader np_load astype fromarray filepath = Inl e"
  then show "(hfae filepath IMG_EXTENSIONS \<and> image_default_loader filepath = Inl e)
        \<or> (\<not> hfae filepath IMG_EXTENSIONS \<and>
             (np_load filepath = Inl e
              \<or> (\<exists>arr. np_load filepath = Inr arr \<and>
                    (astype arr ''uint8'' = Inl e
                     \<or> (\<exists>uint8_arr. astype arr ''uint8'' = Inr uint8_arr
                           \<and> fromarray uint8_arr ''RGB'' = Inl e)))))"
    by (auto simp: image_loader_def split: if_splits sum.splits)
next
  assume "image_default_loader filepath \<noteq> Inl e" "np_load filepath \<noteq> Inl e"
    "\<forall>arr. astype arr ''uint8'' \<noteq> Inl e" "\<forall>uint8_arr. fromarray uint8_arr ''RGB'' \<noteq> Inl e"
  then show "image_loader hfae image_default_loader np_load astype fromarray filepath = Inl e
           \<longleftrightarrow> \<not> hfae filepath IMG_EXTENSIONS \<and> \<not> hfae filepath NP_EXTENSIONS
               \<and> e = ValueError (unsupported_extension_message filepath)"
    by (auto simp: image_loader_def split: if_splits sum.splits)
qed (simp_all add: image_loader_def)

theorem image_loader_extension_witness:
  "image_loader (\<lambda>f exts. drop (length f - 4) f \<in> set exts)
       (\<lambda>p. Inr (''img:'' @ p)) (\<lambda>p. Inr (''arr:'' @ p))
       (\<lambda>a t. Inr (t @ '':'' @ a)) (\<lambda>a m. Inr (m @ '':'' @ a)) ''a.txt''
     = Inl (ValueError (unsupported_extension_message ''a.txt''))
   \<and> sublist ''a.txt'' (unsupported_extension_message ''a.txt'')
   \<and> sublist (py_repr_str ''.npy'') (unsupported_extension_message ''a.txt'')
   \<and> image_loader (\<lambda>f exts. drop (length f - 4) f \<in> set exts)
       (\<lambda>p. Inr (''img:'' @ p)) (\<lambda>p. Inr (''arr:'' @ p))
       (\<lambda>a t. Inr (t @ '':'' @ a)) (\<lambda>a m. Inr (m @ '':'' @ a)) ''cat.png''
     = Inr ''img:cat.png''
   \<and> image_loader (\<lambda>f exts. drop (length f - 4) f \<in> set exts)
       (\<lambda>p. Inr (''img:'' @ p)) (\<lambda>p. Inr (''arr:'' @ p))
       (\<lambda>a t. Inr (t @ '':'' @ a)) (\<lambda>a m. Inr (m @ '':'' @ a)) ''a.npy''
     = Inr ''RGB:uint8:arr:a.npy''"
proof -
  let ?H = "\<lambda>(f::string) exts. drop (length f - 4) f \<in> set exts"
  let ?L = "\<lambda>p::string. Inr (''img:'' @ p) :: pyerr + string"
  let ?N = "\<lambda>p::string. Inr (''arr:'' @ p) :: pyerr + string"
  let ?A = "\<lambda>(a::string) (t::string). Inr (t @ '':'' @ a) :: pyerr + string"
  let ?F = "\<lambda>(a::string) (m::string). Inr (m @ '':'' @ a) :: pyerr + string"
  note th = image_loader_extension
    [where hfae = "?H" and image_default_loader = "?L" and np_load = "?N" and astype = "?A"
       and fromarray = "?F"]
  have h_txt: "\<not> ?H ''a.txt'' IMG_EXTENSIONS \<and> \<not> ?H ''a.txt'' NP_EXTENSIONS"
    by (simp add: IMG_EXTENSIONS_def NP_EXTENSIONS_def)
  have png: "?H ''cat.png'' IMG_EXTENSIONS"
    by (simp add: IMG_EXTENSIONS_def)
  have npy: "\<not> ?H ''a.npy'' IMG_EXTENSIONS" "?H ''a.npy'' NP_EXTENSIONS"
    by (simp_all add: IMG_EXTENSIONS_def NP_EXTENSIONS_def)
  note props = th [where filepath = "''a.txt''", THEN conjunct1, THEN mp, OF h_txt]
  note a = props [THEN conjunct1]
  note b = props [THEN conjunct2, THEN conjunct1]
  note s_exts = props [THEN conjunct2, THEN conjunct2]
  have "''.npy'' \<in> set (IMG_EXTENSIONS @ NP_EXTENSIONS)" by (simp add: NP_EXTENSIONS_def)
  with s_exts have c: "sublist (py_repr_str ''.npy'') (unsupported_extension_message ''a.txt'')"
    by blast
  have d: "image_loader ?H ?L ?N ?A ?F ''cat.png'' = Inr ''img:cat.png''"
    using th [where filepath = "''cat.png''" and img = "''img:cat.png''",
              THEN conjunct2, THEN conjunct2, THEN conjunct2, THEN conjunct1, THEN mp, OF png]
    by simp
  have e: "image_loader ?H ?L ?N ?A ?F ''a.npy'' = Inr ''RGB:uint8:arr:a.npy''"
    using th [where filepath = "''a.npy''" and img = "''RGB:uint8:arr:a.npy''"
                and arr = "''arr:a.npy''" and uint8_arr = "''uint8:arr:a.npy''",
              THEN conjunct2, THEN conjunct2, THEN conjunct2, THEN conjunct2, THEN conjunct1,
              THEN mp, OF npy(1), THEN mp, OF npy(2)]
    by simp
  show ?thesis by (intro conjI a b c d e)
qed

text \<open>
  The claim as it was worded fails for a file with a supported extension whose
  library call raises a \<^verbatim>\<open>ValueError\<close> of its own.  \<^verbatim>\<open>np.load\<close> does so for an
  array of objects (pickles are not allowed by default), and
  \<^verbatim>\<open>Image.fromarray\<close> for an array of more than three dimensions: the file
  \<^verbatim>\<open>a.npy\<close> is accepted for \<^verbatim>\<open>NP_EXTENSIONS\<close>, yet \<^verbatim>\<open>image_loader\<close> raises a
  \<^verbatim>\<open>ValueError\<close> and returns no image.
\<close>

theorem image_loader_ValueError_supported_extension:
  "drop (length ''a.npy'' - 4) ''a.npy'' \<in> set NP_EXTENSIONS
   \<and> (image_loader (\<lambda>f exts. drop (length f - 4) f \<in> set exts)
        (\<lambda>p. Inr (''img:'' @ p))
        (\<lambda>p. Inl (ValueError ''Object arrays cannot be loaded when allow_pickle=False''))
        (\<lambda>a t. Inr (t @ '':'' @ a)) (\<lambda>a m. Inr (m @ '':'' @ a)) ''a.npy''
        :: pyerr + string)
     = Inl (ValueError ''Object arrays cannot be loaded when allow_pickle=False'')
   \<and> (image_loader (\<lambda>f exts. drop (length f - 4) f \<in> set exts)
        (\<lambda>p. Inr (''img:'' @ p)) (\<lambda>p. Inr (''arr:'' @ p))
        (\<lambda>a t. Inr (t @ '':'' @ a))
        (\<lambda>a m. Inl (ValueError ''Too many dimensions: 4 > 3.'')) ''a.npy''
        :: pyerr + string)
     = Inl (ValueError ''Too many dimensions: 4 > 3.'')"
  by (simp add: image_loader_def IMG_EXTENSIONS_def NP_EXTENSIONS_def)


section \<open>Regression task construction: default loss and metric\<close>

text \<open>
  C5.  For every call of \<^verbatim>\<open>RegressionMixin._build\<close>, and hence every
  construction of \<^verbatim>\<open>RegressionTask\<close>: a \<^verbatim>\<open>loss_fn\<close> of \<^verbatim>\<open>None\<close> is replaced by
  \<^verbatim>\<open>F.mse_loss\<close>, a \<^verbatim>\<open>metrics\<close> of \<^verbatim>\<open>None\<close> by a
  \<^verbatim>\<open>torchmetrics.MeanSquaredError\<close> metric, a truthy caller-supplied
  \<^verbatim>\<open>loss_fn\<close> or \<^verbatim>\<open>metrics\<close> is kept unchanged, and the constructor hands exactly
  the pair built this way (with the positional arguments, the serializer and
  the keyword arguments untouched) to \<^verbatim>\<open>Task.__init__\<close>.
\<close>

theorem regression_defaults:
  fixes Task_init :: "'args \<Rightarrow> 'f \<Rightarrow> 'm metrics_arg \<Rightarrow> 's option \<Rightarrow> 'kw \<Rightarrow> pyerr + 'task"
  shows
  "snd (RegressionMixin_build truthy_f truthy_m mse_loss MeanSquaredError None metrics) = mse_loss
   \<and> fst (RegressionMixin_build truthy_f truthy_m mse_loss MeanSquaredError loss_fn None)
       = Metric MeanSquaredError
   \<and> (truthy_f f \<longrightarrow>
        snd (RegressionMixin_build truthy_f truthy_m mse_loss MeanSquaredError (Some f) metrics) = f)
   \<and> (truthy_metrics truthy_m m \<longrightarrow>
        fst (RegressionMixin_build truthy_f truthy_m mse_loss MeanSquaredError loss_fn (Some m)) = m)
   \<and> RegressionTask_init Task_init truthy_f truthy_m mse_loss MeanSquaredError
         args loss_fn metrics serializer kwargs
       = Task_init args
           (snd (RegressionMixin_build truthy_f truthy_m mse_loss MeanSquaredError loss_fn metrics))
           (fst (RegressionMixin_build truthy_f truthy_m mse_loss MeanSquaredError loss_fn metrics))
           serializer kwargs"
  by (simp add: RegressionMixin_build_def RegressionTask_init_def py_or_def Let_def)

theorem regression_defaults_witness:
  "(\<lambda>f::string. f \<noteq> []) ''l1_loss''
   \<and> truthy_metrics (\<lambda>m::string. True) (MetricSequence [''mae''])
   \<and> snd (RegressionMixin_build (\<lambda>f::string. f \<noteq> []) (\<lambda>m::string. True)
         ''mse_loss'' ''MeanSquaredError'' (Some ''l1_loss'') None) = ''l1_loss''
   \<and> fst (RegressionMixin_build (\<lambda>f::string. f \<noteq> []) (\<lambda>m::string. True)
         ''mse_loss'' ''MeanSquaredError'' None (Some (MetricSequence [''mae''])))
       = MetricSequence [''mae'']
   \<and> RegressionTask_init
         (\<lambda>(a::nat list) l m (s::unit option) (k::unit). Inr (a, l, m) :: pyerr + _)
         (\<lambda>f::string. f \<noteq> []) (\<lambda>m::string. True) ''mse_loss'' ''MeanSquaredError''
         [1, 2] None None None ()
       = Inr ([1, 2], ''mse_loss'', Metric ''MeanSquaredError'')"
  using regression_defaults
    [where Task_init = "\<lambda>(a::nat list) l m (s::unit option) (k::unit). Inr (a, l, m) :: pyerr + _"
       and truthy_f = "\<lambda>f::string. f \<noteq> []" and truthy_m = "\<lambda>m::string. True"
       and mse_loss = "''mse_loss''" and MeanSquaredError = "''MeanSquaredError''"
       and f = "''l1_loss''" and m = "MetricSequence [''mae'']"
       and args = "[1, 2]" and loss_fn = None and metrics = None
       and serializer = None and kwargs = "()"]
  by simp


section \<open>Style transfer rejects validation and test phases\<close>

text \<open>
  C3.  Constructing a \<^verbatim>\<open>StyleTransferInputTransform\<close> with a validation
  transform or a test transform supplied (the argument is truthy: a
  non-empty dictionary of transforms or a non-empty name) raises the
  exception of \<^verbatim>\<open>raise_not_supported\<close> before anything of the object is set
  up, and no object is returned.  \<^verbatim>\<open>StyleTransferData.from_folders\<close> raises it
  whenever its keyword arguments hold a value other than \<^verbatim>\<open>None\<close> for
  \<^verbatim>\<open>val_folder\<close>, \<^verbatim>\<open>val_transform\<close>, \<^verbatim>\<open>test_folder\<close> or \<^verbatim>\<open>test_transform\<close>,
  and then has called neither the constructor of the transform nor that of
  the data module.
\<close>

theorem style_transfer_rejects_val_and_test:
  "(py_bool truthy_transform val_transform \<or> py_bool truthy_transform test_transform \<longrightarrow>
      StyleTransferInputTransform_init InputTransform_init self
          train_transform val_transform test_transform predict_transform image_size_arg
        = (Some (raise_not_supported
                   (if py_bool truthy_transform val_transform then ''validation'' else ''test'')),
           self)
      \<and> new_StyleTransferInputTransform InputTransform_init
          train_transform val_transform test_transform predict_transform image_size_arg
        = Inl (raise_not_supported
                 (if py_bool truthy_transform val_transform then ''validation'' else ''test'')))
   \<and> (given kwargs ''val_folder'' \<or> given kwargs ''val_transform''
        \<or> given kwargs ''test_folder'' \<or> given kwargs ''test_transform'' \<longrightarrow>
      StyleTransferData_from_folders InputTransform_init truthy_input_transform from_input
          train_folder predict_folder train_transform predict_transform input_transform kwargs
        = ([], Inl (raise_not_supported
                      (if given kwargs ''val_folder'' \<or> given kwargs ''val_transform''
                       then ''validation'' else ''test''))))"
  by (auto simp: StyleTransferInputTransform_init_def new_StyleTransferInputTransform_def
                 StyleTransferData_from_folders_def)

theorem style_transfer_rejects_val_and_test_witness:
  "py_bool truthy_transform (Some (TransformDict [(''per_sample_transform'', ''resize'')]))
   \<and> new_StyleTransferInputTransform
        (\<lambda>self train val test predict inp dflt. Inr () :: pyerr + unit)
        None (Some (TransformDict [(''per_sample_transform'', ''resize'')])) None None (SizeInt 256)
      = Inl (NotSupported ''validation'')
   \<and> StyleTransferInputTransform_init
        (\<lambda>self train val test predict inp dflt. Inr () :: pyerr + unit) blank
        None None (Some (TransformName ''default'' :: string transform_arg)) None (SizeInt 256)
      = (Some (NotSupported ''test''), blank)
   \<and> given [(''batch_size'', Some (4::int)), (''test_folder'', Some 7)] ''test_folder''
   \<and> StyleTransferData_from_folders
        (\<lambda>self train val test predict inp dflt. Inr () :: pyerr + unit) (\<lambda>_. True)
        (\<lambda>fmt train predict t kw. Inr ''datamodule'' :: pyerr + string)
        (Some ''train/'') (None :: string option) (None :: string transform_arg option) None None
        [(''batch_size'', Some (4::int)), (''test_folder'', Some 7)]
      = ([], Inl (NotSupported ''test''))"
proof -
  let ?I = "\<lambda>(self :: unit StyleTransferInputTransform) (train :: string transform_arg option)
              (val :: string transform_arg option) (test :: string transform_arg option)
              (predict :: string transform_arg option) (inp :: (InputFormat \<times> input_cls) list)
              (dflt :: InputFormat). Inr () :: pyerr + unit"
  let ?V = "Some (TransformDict [(''per_sample_transform'', ''resize'')])"
  let ?T = "Some (TransformName ''default'' :: string transform_arg)"
  let ?K = "[(''batch_size'', Some (4::int)), (''test_folder'', Some 7)]"
  have v: "py_bool truthy_transform ?V" by (simp add: py_bool_def)
  have t: "py_bool truthy_transform ?T" by (simp add: py_bool_def)
  have k: "given ?K ''test_folder''" by (simp add: given_def)
  have nk: "\<not> given ?K ''val_folder''" "\<not> given ?K ''val_transform''"
    by (simp_all add: given_def)
  have a: "new_StyleTransferInputTransform ?I None ?V None None (SizeInt 256)
      = Inl (NotSupported ''validation'')"
    using style_transfer_rejects_val_and_test
      [where val_transform = "?V" and test_transform = None and InputTransform_init = "?I"
         and train_transform = None and predict_transform = None
         and image_size_arg = "SizeInt 256", THEN conjunct1] v
    by (simp add: raise_not_supported_def)
  have b: "StyleTransferInputTransform_init ?I blank None None ?T None (SizeInt 256)
      = (Some (NotSupported ''test''), blank)"
    using style_transfer_rejects_val_and_test
      [where val_transform = None and test_transform = "?T" and InputTransform_init = "?I"
         and self = blank and train_transform = None and predict_transform = None
         and image_size_arg = "SizeInt 256", THEN conjunct1] t
    by (simp add: raise_not_supported_def py_bool_def)
  have c: "StyleTransferData_from_folders ?I (\<lambda>_. True)
        (\<lambda>fmt train predict t kw. Inr ''datamodule'' :: pyerr + string)
        (Some ''train/'') (None :: string option) (None :: string transform_arg option) None None ?K
      = ([], Inl (NotSupported ''test''))"
    using style_transfer_rejects_val_and_test
      [where kwargs = "?K" and InputTransform_init = "?I"
         and truthy_input_transform = "\<lambda>_. True"
         and from_input = "\<lambda>fmt train predict t kw. Inr ''datamodule'' :: pyerr + string"
         and train_folder = "Some ''train/''" and predict_folder = "None :: string option"
         and train_transform = "None :: string transform_arg option"
         and predict_transform = None and input_transform = None, THEN conjunct2] k nk
    by (simp add: raise_not_supported_def)
  show ?thesis by (intro conjI v a b k c)
qed


section \<open>Validation of the data of an input object\<close>

lemma re_search_preamble: "re_match_here p s \<Longrightarrow> re_search p (preamble @ s)"
proof (induction preamble)
  case Nil
  then show ?case by (cases s) simp_all
next
  case (Cons c preamble)
  then show ?case by simp
qed

lemma matches_IterableInput:
  "re_match_here (use_instead ''IterableInput'') (use_instead ''IterableInput'')"
  by (simp add: use_instead_def)

lemma matches_Input: "re_match_here (use_instead ''Input'') (use_instead ''Input'')"
  by (simp add: use_instead_def)

text \<open>
  C4.  Constructing an \<^verbatim>\<open>Input\<close> whose data is an iterator raises a
  \<^verbatim>\<open>RuntimeError\<close> whose message matches the pattern
  \<^verbatim>\<open>Use `IterableInput` instead.\<close>, while constructing it with a list
  succeeds; constructing an \<^verbatim>\<open>IterableInput\<close> whose data is a list raises a
  \<^verbatim>\<open>RuntimeError\<close> whose message matches \<^verbatim>\<open>Use `Input` instead.\<close>, while
  constructing it with an iterator succeeds.
\<close>

theorem input_validation:
  "(\<exists>m. construct preamble Input (IteratorBacked xs) = Inl (RuntimeError m)
        \<and> re_search (use_instead ''IterableInput'') m)
   \<and> (\<exists>obj. construct preamble Input (ListBacked xs) = Inr obj)
   \<and> (\<exists>m. construct preamble IterableInput (ListBacked xs) = Inl (RuntimeError m)
        \<and> re_search (use_instead ''Input'') m)
   \<and> (\<exists>obj. construct preamble IterableInput (IteratorBacked xs) = Inr obj)"
  by (simp add: re_search_preamble matches_IterableInput matches_Input)

end
